theory Spec2Isabelle
  imports Complex_Main "HOL-Library.Sublist"
begin

section \<open>Numbers, errors, references\<close>

text \<open>
  The simulation core of the RTS engine (\<^verbatim>\<open>src/game/map.py\<close>, \<^verbatim>\<open>src/game/entities.py\<close>,
  \<^verbatim>\<open>src/game/engine.py\<close>) as HOL functions.

  Python numbers that hold pixel positions, health and zoom are modelled as \<^typ>\<open>real\<close>:
  arithmetic is exact, so rounding and overflow of IEEE doubles are outside the model.
  Tile coordinates and map extents are Python ints, modelled as \<^typ>\<open>int\<close>.

  Objects are mutable and shared between lists (the driver's entity list, the roster handed
  to \<^verbatim>\<open>Unit.update\<close>, the \<^verbatim>\<open>all_buildings\<close> attribute), so units and buildings live in
  stores indexed by references; \<^verbatim>\<open>a is b\<close> is equality of references.
\<close>

datatype py_error = IndexError | ZeroDivisionError

type_synonym ref = nat

text \<open>\<^verbatim>\<open>int(f)\<close> on a float truncates toward zero.\<close>

definition py_int :: "real \<Rightarrow> int" where
  "py_int r = (if 0 \<le> r then \<lfloor>r\<rfloor> else \<lceil>r\<rceil>)"

text \<open>\<^verbatim>\<open>range(n)\<close>: empty when \<open>n \<le> 0\<close>.\<close>

definition py_range :: "int \<Rightarrow> int list" where
  "py_range n = map int [0..<nat n]"

section \<open>The tile map (\<^verbatim>\<open>src/game/map.py\<close>)\<close>

datatype TileType = GRASS | WATER | FOREST | MOUNTAIN | DIRT

text \<open>
  \<^verbatim>\<open>Tile\<close>: the fields set by \<^verbatim>\<open>Tile.__init__\<close>. \<open>building\<close> is the reference to the
  occupying building or \<open>None\<close>; \<open>unit\<close> is the attribute the driver adds when it spawns a
  unit on the tile (\<open>None\<close> while absent). The render-only \<^verbatim>\<open>_points_cache\<close> is left out.
\<close>

record Tile =
  x :: int
  y :: int
  tile_type :: TileType
  resource_amount :: int
  building :: "ref option"
  unit :: "ref option"
  base_screen_x :: int
  base_screen_y :: int

definition Tile_init :: "int \<Rightarrow> int \<Rightarrow> TileType \<Rightarrow> Tile" where
  "Tile_init tx ty tt =
     \<lparr> x = tx, y = ty, tile_type = tt, resource_amount = 0, building = None, unit = None,
       base_screen_x = (tx - ty) * 32, base_screen_y = (tx + ty) * 16 \<rparr>"

text \<open>\<^verbatim>\<open>GameMap\<close>: \<open>tiles\<close> is the list of rows, read as \<^verbatim>\<open>tiles[y][x]\<close>.\<close>

record GameMap =
  width :: int
  height :: int
  tiles :: "Tile list list"

text \<open>
  \<^verbatim>\<open>GameMap.get_tile_at\<close>. The bounds test is against \<open>width\<close> and \<open>height\<close>; the list read
  raises \<^verbatim>\<open>IndexError\<close> if the grid is shorter than they say.
\<close>

definition get_tile_at :: "GameMap \<Rightarrow> int \<Rightarrow> int \<Rightarrow> py_error + Tile option" where
  "get_tile_at m tx ty =
     (if 0 \<le> tx \<and> tx < width m \<and> 0 \<le> ty \<and> ty < height m then
        (if nat ty < length (tiles m) then
           (if nat tx < length (tiles m ! nat ty)
            then Inr (Some (tiles m ! nat ty ! nat tx))
            else Inl IndexError)
         else Inl IndexError)
      else Inr None)"

text \<open>
  The coordinate computation of \<^verbatim>\<open>GameMap.get_tile_at_screen_pos\<close>: remove the camera
  offset, divide by the zoom, invert the isometric transform, truncate with \<^verbatim>\<open>int\<close>.
\<close>

definition screen_pos_to_tile_coords ::
  "real \<Rightarrow> real \<Rightarrow> real \<Rightarrow> real \<Rightarrow> real \<Rightarrow> py_error + (int \<times> int)" where
  "screen_pos_to_tile_coords screen_x screen_y zoom_level camera_x camera_y =
     (if zoom_level = 0 then Inl ZeroDivisionError
      else
        let sx = (screen_x - camera_x) / zoom_level;
            sy = (screen_y - camera_y) / zoom_level;
            tile_x = py_int ((sx / 32 + sy / 16) / 2);
            tile_y = py_int ((sy / 16 - sx / 32) / 2)
        in Inr (tile_x, tile_y))"

text \<open>\<^verbatim>\<open>GameMap.get_tile_at_screen_pos\<close>: any exception is caught and gives \<open>None\<close>.\<close>

definition get_tile_at_screen_pos ::
  "GameMap \<Rightarrow> real \<Rightarrow> real \<Rightarrow> real \<Rightarrow> real \<Rightarrow> real \<Rightarrow> Tile option" where
  "get_tile_at_screen_pos m screen_x screen_y zoom_level camera_x camera_y =
     (case screen_pos_to_tile_coords screen_x screen_y zoom_level camera_x camera_y of
        Inl e \<Rightarrow> None
      | Inr (tile_x, tile_y) \<Rightarrow>
          (case get_tile_at m tile_x tile_y of Inl e \<Rightarrow> None | Inr r \<Rightarrow> r))"

text \<open>
  \<^verbatim>\<open>GameMap.can_build_at\<close>: the inner loop over \<open>dx\<close>, then the outer loop over \<open>dy\<close>.
  \<open>Inr False\<close> is the early \<^verbatim>\<open>return False\<close>; \<open>Inr True\<close> from the inner loop means that
  it ran to its end.
\<close>

fun can_build_row :: "GameMap \<Rightarrow> int \<Rightarrow> int \<Rightarrow> int list \<Rightarrow> py_error + bool" where
  "can_build_row m bx ty [] = Inr True"
| "can_build_row m bx ty (dx # dxs) =
     (case get_tile_at m (bx + dx) ty of
        Inl e \<Rightarrow> Inl e
      | Inr None \<Rightarrow> Inr False
      | Inr (Some t) \<Rightarrow>
          (if tile_type t \<noteq> GRASS \<or> building t \<noteq> None then Inr False
           else can_build_row m bx ty dxs))"

fun can_build_rows :: "GameMap \<Rightarrow> int \<Rightarrow> int \<Rightarrow> int \<Rightarrow> int list \<Rightarrow> py_error + bool" where
  "can_build_rows m bx by w [] = Inr True"
| "can_build_rows m bx by w (dy # dys) =
     (case can_build_row m bx (by + dy) (py_range w) of
        Inl e \<Rightarrow> Inl e
      | Inr False \<Rightarrow> Inr False
      | Inr True \<Rightarrow> can_build_rows m bx by w dys)"

definition can_build_at :: "GameMap \<Rightarrow> int \<Rightarrow> int \<Rightarrow> int \<Rightarrow> int \<Rightarrow> py_error + bool" where
  "can_build_at m bx by w h = can_build_rows m bx by w (py_range h)"

text \<open>The grid has \<open>height\<close> rows of \<open>width\<close> tiles, as \<^verbatim>\<open>generate_map\<close> builds it.\<close>

definition wf_map :: "GameMap \<Rightarrow> bool" where
  "wf_map m \<longleftrightarrow>
     length (tiles m) = nat (height m) \<and> list_all (\<lambda>row. length row = nat (width m)) (tiles m)"

text \<open>A covered tile passes: in bounds, GRASS, no building reference.\<close>

definition tile_free :: "GameMap \<Rightarrow> int \<Rightarrow> int \<Rightarrow> bool" where
  "tile_free m tx ty \<longleftrightarrow>
     0 \<le> tx \<and> tx < width m \<and> 0 \<le> ty \<and> ty < height m \<and>
     tile_type (tiles m ! nat ty ! nat tx) = GRASS \<and>
     building (tiles m ! nat ty ! nat tx) = None"

definition grass_map2 :: GameMap where
  "grass_map2 = \<lparr> width = 2, height = 2,
     tiles = [[Tile_init 0 0 GRASS, Tile_init 1 0 GRASS],
              [Tile_init 0 1 GRASS, Tile_init 1 1 GRASS]] \<rparr>"

definition mountain_map2 :: GameMap where
  "mountain_map2 = \<lparr> width = 2, height = 2,
     tiles = [[Tile_init 0 0 GRASS, Tile_init 1 0 GRASS],
              [Tile_init 0 1 GRASS, Tile_init 1 1 MOUNTAIN]] \<rparr>"

section \<open>Entities (\<^verbatim>\<open>src/game/entities.py\<close>)\<close>

text \<open>
  \<^verbatim>\<open>Entity\<close>: position, footprint, selection flag, the screen position computed once by
  \<^verbatim>\<open>__init__\<close>, and \<^verbatim>\<open>_screen_pos_cache\<close>, a dict from zoom level to screen point.
\<close>

record Entity =
  x :: real
  y :: real
  width :: real
  height :: real
  selected :: bool
  base_screen_x :: real
  base_screen_y :: real
  screen_pos_cache :: "real \<rightharpoonup> real \<times> real"

definition Entity_init :: "real \<Rightarrow> real \<Rightarrow> real \<Rightarrow> real \<Rightarrow> Entity" where
  "Entity_init ex ey w h =
     \<lparr> x = ex, y = ey, width = w, height = h, selected = False,
       base_screen_x = (ex - ey) * 32, base_screen_y = (ex + ey) * 16,
       screen_pos_cache = Map.empty \<rparr>"

text \<open>
  \<^verbatim>\<open>Entity.get_screen_pos\<close>, inherited by \<^verbatim>\<open>Building\<close>: returns the point and the entity
  with its cache filled.
\<close>

definition Entity_get_screen_pos ::
  "'a Entity_scheme \<Rightarrow> real \<Rightarrow> (real \<times> real) \<times> 'a Entity_scheme" where
  "Entity_get_screen_pos e zoom_level =
     (case screen_pos_cache e zoom_level of
        Some p \<Rightarrow> (p, e)
      | None \<Rightarrow>
          let pos = (base_screen_x e * zoom_level, base_screen_y e * zoom_level)
          in (pos, e\<lparr>screen_pos_cache := (screen_pos_cache e)(zoom_level \<mapsto> pos)\<rparr>))"

datatype ResourceType = GOLD | WOOD | STONE | FOOD

text \<open>\<^verbatim>\<open>ResourceManager\<close> (\<^verbatim>\<open>src/game/resources.py\<close>): both dicts hold all four keys.\<close>

record ResourceManager =
  resources :: "ResourceType \<Rightarrow> int"
  production_rates :: "ResourceType \<Rightarrow> real"

definition ResourceManager_init :: ResourceManager where
  "ResourceManager_init =
     \<lparr> resources = (\<lambda>t. case t of GOLD \<Rightarrow> 1000 | WOOD \<Rightarrow> 500 | STONE \<Rightarrow> 500 | FOOD \<Rightarrow> 1000),
       production_rates = (\<lambda>t. 0) \<rparr>"

definition add_resource :: "ResourceManager \<Rightarrow> ResourceType \<Rightarrow> int \<Rightarrow> ResourceManager" where
  "add_resource rm t amount = rm\<lparr>resources := (resources rm)(t := resources rm t + amount)\<rparr>"

text \<open>
  \<^verbatim>\<open>Building\<close>. \<open>resource_manager\<close> tells whether the attribute holds the driver's one
  \<^verbatim>\<open>ResourceManager\<close> (\<open>True\<close>) or \<^verbatim>\<open>None\<close>. The render-only \<^verbatim>\<open>_points_cache\<close> is left out.
\<close>

record Building = Entity +
  building_type :: string
  health :: real
  max_health :: real
  production_rate :: real
  resource_timer :: real
  resource_manager :: bool

definition Building_init :: "real \<Rightarrow> real \<Rightarrow> string \<Rightarrow> bool \<Rightarrow> Building" where
  "Building_init bx by btype rm =
     Entity.extend
       (if btype \<in> set [''Stonekeep'', ''EnemyStonekeep''] then Entity_init bx by 128 128
        else if btype = ''Stockpile'' then Entity_init bx by 256 32
        else Entity_init bx by 64 64)
       (Building.fields btype 100 100 0 0 rm)"

text \<open>\<^verbatim>\<open>Building.update\<close>: the production timer. It does not touch \<open>health\<close>.\<close>

definition Building_update ::
  "Building \<Rightarrow> real \<Rightarrow> ResourceManager \<Rightarrow> Building \<times> ResourceManager" where
  "Building_update b dt rm =
     (if building_type b = ''Woodcutter'' \<and> resource_manager b then
        (let b1 = b\<lparr>resource_timer := resource_timer b + dt\<rparr>
         in if resource_timer b1 \<ge> 30
            then (b1\<lparr>resource_timer := 0\<rparr>, add_resource rm WOOD 10) else (b1, rm))
      else if building_type b = ''Quarry'' \<and> resource_manager b then
        (let b1 = b\<lparr>resource_timer := resource_timer b + dt\<rparr>
         in if resource_timer b1 \<ge> 30
            then (b1\<lparr>resource_timer := 0\<rparr>, add_resource rm STONE 10) else (b1, rm))
      else if building_type b = ''Farm'' \<and> resource_manager b then
        (let b1 = b\<lparr>resource_timer := resource_timer b + dt\<rparr>
         in if resource_timer b1 \<ge> 30
            then (b1\<lparr>resource_timer := 0\<rparr>, add_resource rm FOOD 10) else (b1, rm))
      else (b, rm))"

text \<open>
  \<^verbatim>\<open>Unit\<close>. \<open>target_pos\<close> is the movement destination or \<^verbatim>\<open>None\<close>. \<open>all_buildings\<close> is
  the attribute the driver sets before each update: \<open>None\<close> while the attribute is absent
  (\<^verbatim>\<open>getattr(self, 'all_buildings', [])\<close> then reads the empty list), else the list of
  building references.
\<close>

record Unit = Entity +
  unit_type :: string
  health :: real
  max_health :: real
  speed :: real
  target_pos :: "(real \<times> real) option"
  attack_damage :: real
  attack_range :: real
  team :: string
  all_buildings :: "ref list option"

definition Unit_init :: "real \<Rightarrow> real \<Rightarrow> string \<Rightarrow> string \<Rightarrow> Unit" where
  "Unit_init ux uy utype uteam =
     Entity.extend (Entity_init ux uy 32 32)
       (Unit.fields utype 100 100 2 None 10 50 uteam None)"

text \<open>\<^verbatim>\<open>Unit.get_screen_pos\<close> overrides the cached version: it reads the position anew.\<close>

definition Unit_get_screen_pos :: "Unit \<Rightarrow> real \<Rightarrow> real \<times> real" where
  "Unit_get_screen_pos u zoom_level = (Entity.x u * zoom_level, Entity.y u * zoom_level)"

text \<open>\<^verbatim>\<open>Unit.move_to\<close>.\<close>

definition move_to :: "Unit \<Rightarrow> real \<times> real \<Rightarrow> Unit" where
  "move_to u p = u\<lparr>target_pos := Some p\<rparr>"

type_synonym unit_heap = "ref \<Rightarrow> Unit"
type_synonym building_heap = "ref \<Rightarrow> Building"

subsection \<open>\<^verbatim>\<open>Unit.update\<close>: combat with units\<close>

text \<open>\<^verbatim>\<open>((x1 - x2) ** 2 + (y1 - y2) ** 2) ** 0.5\<close>\<close>

definition euclid :: "real \<Rightarrow> real \<Rightarrow> real \<Rightarrow> real \<Rightarrow> real" where
  "euclid x1 y1 x2 y2 = sqrt ((x1 - x2)\<^sup>2 + (y1 - y2)\<^sup>2)"

text \<open>
  The two tests of the first loop: \<^verbatim>\<open>other is not self\<close> with a different team, and the
  distance below \<^verbatim>\<open>attack_range = 30\<close>.
\<close>

definition fights :: "unit_heap \<Rightarrow> ref \<Rightarrow> ref \<Rightarrow> bool" where
  "fights us self other \<longleftrightarrow>
     other \<noteq> self \<and> team (us other) \<noteq> team (us self) \<and>
     euclid (Entity.x (us self)) (Entity.y (us self))
            (Entity.x (us other)) (Entity.y (us other)) < 30"

text \<open>The three assignments of the loop body, in the source's order.\<close>

definition hit :: "ref \<Rightarrow> ref \<Rightarrow> unit_heap \<Rightarrow> unit_heap" where
  "hit self other us =
     (let us1 = us(other := (us other)
                  \<lparr>Unit.health := Unit.health (us other) - attack_damage (us self) * 0.1\<rparr>);
          us2 = us1(self := (us1 self)
                  \<lparr>Unit.health := Unit.health (us1 self) - attack_damage (us1 other) * 0.05\<rparr>);
          us3 = us2(self := (us2 self)\<lparr>target_pos := None\<rparr>)
      in us3)"

text \<open>The loop over \<^verbatim>\<open>all_units\<close>; the flag is \<^verbatim>\<open>did_attack_unit\<close>.\<close>

fun attack_units :: "ref \<Rightarrow> ref list \<Rightarrow> unit_heap \<Rightarrow> bool \<Rightarrow> unit_heap \<times> bool" where
  "attack_units self [] us did = (us, did)"
| "attack_units self (other # rest) us did =
     (if fights us self other then attack_units self rest (hit self other us) True
      else attack_units self rest us did)"

subsection \<open>\<^verbatim>\<open>Unit.update\<close>: combat with buildings\<close>

text \<open>
  \<^verbatim>\<open>str.lower\<close> on the ASCII letters (the type names of the program are ASCII), and
  \<^verbatim>\<open>sub in s\<close> on strings.
\<close>

definition lower_char :: "char \<Rightarrow> char" where
  "lower_char c =
     (case map_of (zip ''ABCDEFGHIJKLMNOPQRSTUVWXYZ'' ''abcdefghijklmnopqrstuvwxyz'') c of
        Some d \<Rightarrow> d | None \<Rightarrow> c)"

definition lower :: "string \<Rightarrow> string" where
  "lower s = map lower_char s"

fun str_in :: "string \<Rightarrow> string \<Rightarrow> bool" where
  "str_in sub [] = (sub = [])"
| "str_in sub (c # cs) = (prefix sub (c # cs) \<or> str_in sub cs)"

text \<open>The hostility test: the \<^verbatim>\<open>if\<close>/\<^verbatim>\<open>elif\<close>/\<^verbatim>\<open>else\<close> on team and type name.\<close>

definition is_enemy_building :: "string \<Rightarrow> string \<Rightarrow> bool" where
  "is_enemy_building uteam btype0 =
     (let btype = lower btype0 in
      if uteam = ''player'' \<and> str_in ''enemy'' btype then True
      else if uteam = ''enemy'' \<and> \<not> str_in ''enemy'' btype then True
      else False)"

text \<open>
  The closest point of the building's rectangle to \<open>(px, py)\<close>, by clamping per axis, and
  its distance to \<open>(px, py)\<close>.
\<close>

definition closest_point :: "real \<Rightarrow> real \<Rightarrow> Building \<Rightarrow> real \<times> real" where
  "closest_point px py b =
     (let bx = Entity.x b; by = Entity.y b; bw = Entity.width b; bh = Entity.height b;
          closest_x = min (max px bx) (bx + bw);
          closest_y = min (max py by) (by + bh)
      in (closest_x, closest_y))"

definition rect_dist :: "real \<Rightarrow> real \<Rightarrow> Building \<Rightarrow> real" where
  "rect_dist px py b =
     (case closest_point px py b of (closest_x, closest_y) \<Rightarrow> euclid px py closest_x closest_y)"

text \<open>The building is hostile and within \<^verbatim>\<open>unit_radius = 16\<close> of the unit.\<close>

definition sieges :: "Unit \<Rightarrow> Building \<Rightarrow> bool" where
  "sieges u b \<longleftrightarrow>
     is_enemy_building (team u) (building_type b) \<and> rect_dist (Entity.x u) (Entity.y u) b \<le> 16"

text \<open>The loop over \<^verbatim>\<open>all_buildings\<close>; the flag is \<^verbatim>\<open>did_attack_building\<close>.\<close>

fun attack_buildings ::
  "ref \<Rightarrow> ref list \<Rightarrow> unit_heap \<Rightarrow> building_heap \<Rightarrow> bool \<Rightarrow> unit_heap \<times> building_heap \<times> bool" where
  "attack_buildings self [] us bs did = (us, bs, did)"
| "attack_buildings self (b # rest) us bs did =
     (if sieges (us self) (bs b) then
        attack_buildings self rest
          (us(self := (us self)\<lparr>target_pos := None\<rparr>))
          (bs(b := (bs b)\<lparr>Building.health := Building.health (bs b) - attack_damage (us self) * 0.08\<rparr>))
          True
      else attack_buildings self rest us bs did)"

subsection \<open>\<^verbatim>\<open>Unit.update\<close>: movement and clamp\<close>

text \<open>The two collision loops on the candidate position; \<open>True\<close> is \<^verbatim>\<open>blocked = True; break\<close>.\<close>

fun blocked_by_units :: "real \<Rightarrow> real \<Rightarrow> ref \<Rightarrow> ref list \<Rightarrow> unit_heap \<Rightarrow> bool" where
  "blocked_by_units next_x next_y self [] us = False"
| "blocked_by_units next_x next_y self (other # rest) us =
     (if other \<noteq> self then
        (if euclid next_x next_y (Entity.x (us other)) (Entity.y (us other)) < 28 then True
         else blocked_by_units next_x next_y self rest us)
      else blocked_by_units next_x next_y self rest us)"

fun blocked_by_buildings :: "real \<Rightarrow> real \<Rightarrow> ref list \<Rightarrow> building_heap \<Rightarrow> bool" where
  "blocked_by_buildings next_x next_y [] bs = False"
| "blocked_by_buildings next_x next_y (b # rest) bs =
     (if rect_dist next_x next_y (bs b) < 16 then True
      else blocked_by_buildings next_x next_y rest bs)"

text \<open>\<^verbatim>\<open>getattr(self, 'all_buildings', [])\<close>\<close>

definition get_all_buildings :: "Unit \<Rightarrow> ref list" where
  "get_all_buildings u = (case all_buildings u of None \<Rightarrow> [] | Some l \<Rightarrow> l)"

text \<open>
  The body of \<^verbatim>\<open>if self.target_pos and not (did_attack_unit or did_attack_building)\<close>, for
  the destination \<open>(tx, ty)\<close>. The division by \<open>distance\<close> raises when \<open>distance\<close> is zero,
  which the test \<open>distance > speed\<close> lets through only for a negative speed.
\<close>

definition move :: "ref \<Rightarrow> ref list \<Rightarrow> real \<times> real \<Rightarrow> unit_heap \<Rightarrow> building_heap \<Rightarrow> py_error + unit_heap" where
  "move self all_units tp us bs =
     (let dx = fst tp - Entity.x (us self);
          dy = snd tp - Entity.y (us self);
          distance = sqrt (dx\<^sup>2 + dy\<^sup>2)
      in if distance > speed (us self) then
           (if distance = 0 then Inl ZeroDivisionError
            else
              let next_x = Entity.x (us self) + (dx / distance) * speed (us self);
                  next_y = Entity.y (us self) + (dy / distance) * speed (us self);
                  blocked = blocked_by_units next_x next_y self all_units us;
                  blocked = (if \<not> blocked
                             then blocked_by_buildings next_x next_y (get_all_buildings (us self)) bs
                             else blocked)
              in if \<not> blocked
                 then Inr (us(self := (us self)\<lparr>Entity.x := next_x, Entity.y := next_y\<rparr>))
                 else Inr (us(self := (us self)\<lparr>target_pos := None\<rparr>)))
         else Inr (us(self := (us self)\<lparr>target_pos := None\<rparr>)))"

text \<open>
  \<^verbatim>\<open>Unit.update(self, all_units)\<close> on the stores: the two combat loops, the movement, the
  clamp of the unit's own health. When the movement raises, no combat took place, so
  nothing has been written yet and the stores are as they were.
\<close>

definition Unit_update ::
  "ref \<Rightarrow> ref list \<Rightarrow> unit_heap \<Rightarrow> building_heap \<Rightarrow> py_error + unit_heap \<times> building_heap" where
  "Unit_update self all_units us bs =
     (case attack_units self all_units us False of (us1, did_attack_unit) \<Rightarrow>
      case attack_buildings self (get_all_buildings (us1 self)) us1 bs False of
        (us2, bs2, did_attack_building) \<Rightarrow>
      case (case target_pos (us2 self) of
              Some tp \<Rightarrow>
                if \<not> (did_attack_unit \<or> did_attack_building)
                then move self all_units tp us2 bs2 else Inr us2
            | None \<Rightarrow> Inr us2) of
        Inl e \<Rightarrow> Inl e
      | Inr us3 \<Rightarrow>
          Inr (us3(self := (us3 self)\<lparr>Unit.health := max 0 (Unit.health (us3 self))\<rparr>), bs2))"

section \<open>The simulation driver (\<^verbatim>\<open>src/game/engine.py\<close>)\<close>

text \<open>
  The driver's lists hold references: \<open>entities\<close> mixes units and buildings, told apart as
  \<^verbatim>\<open>isinstance\<close> does. The state keeps the two stores next to the lists.
\<close>

datatype eref = UnitRef ref | BuildingRef ref

record GameEngine =
  paused :: bool
  selected_entities :: "eref list"
  entities :: "eref list"
  buildings :: "ref list"
  units :: "ref list"
  camera_x :: real
  camera_y :: real
  zoom_level :: real
  resource_manager :: ResourceManager
  game_map :: GameMap
  placement_preview :: "ref option"
  win_message_shown :: bool
  uheap :: unit_heap
  bheap :: building_heap

text \<open>
  What one call of \<^verbatim>\<open>GameEngine.update\<close> reads from pygame: the pressed keys, the mouse
  position and the size of the screen.
\<close>

record Input =
  K_LEFT :: bool
  K_RIGHT :: bool
  K_UP :: bool
  K_DOWN :: bool
  K_a :: bool
  K_d :: bool
  K_w :: bool
  K_s :: bool
  mouse_pos :: "real \<times> real"
  screen_size :: "real \<times> real"

text \<open>
  A phase of the update either runs to its end or raises; in both cases the writes made so
  far stay, so the state comes with the exception.
\<close>

type_synonym outcome = "py_error option \<times> GameEngine"

definition and_then :: "outcome \<Rightarrow> (GameEngine \<Rightarrow> outcome) \<Rightarrow> outcome" where
  "and_then r f = (case r of (None, s) \<Rightarrow> f s | (Some e, s) \<Rightarrow> (Some e, s))"

subsection \<open>Enemy targeting\<close>

text \<open>
  The inner loop: the nearest player unit closer than 400. \<open>min_dist\<close> is \<open>None\<close> for
  \<^verbatim>\<open>float('inf')\<close>.
\<close>

fun nearest_player ::
  "unit_heap \<Rightarrow> ref \<Rightarrow> ref list \<Rightarrow> real option \<Rightarrow> ref option \<Rightarrow> ref option" where
  "nearest_player us enemy [] min_dist target = target"
| "nearest_player us enemy (u # rest) min_dist target =
     (if team (us u) = ''player'' then
        (let dist = euclid (Entity.x (us enemy)) (Entity.y (us enemy))
                           (Entity.x (us u)) (Entity.y (us u))
         in if dist < 400 \<and> (case min_dist of None \<Rightarrow> True | Some m \<Rightarrow> dist < m)
            then nearest_player us enemy rest (Some dist) (Some u)
            else nearest_player us enemy rest min_dist target)
      else nearest_player us enemy rest min_dist target)"

fun enemy_ai :: "ref list \<Rightarrow> ref list \<Rightarrow> unit_heap \<Rightarrow> unit_heap" where
  "enemy_ai [] all_units us = us"
| "enemy_ai (enemy # rest) all_units us =
     (if team (us enemy) = ''enemy'' then
        (case nearest_player us enemy all_units None None of
           Some target \<Rightarrow>
             enemy_ai rest all_units
               (us(enemy := move_to (us enemy) (Entity.x (us target), Entity.y (us target))))
         | None \<Rightarrow> enemy_ai rest all_units us)
      else enemy_ai rest all_units us)"

subsection \<open>Camera keys, unit keys, camera clamp\<close>

text \<open>\<^verbatim>\<open>CAMERA_SPEED / zoom_level\<close> with \<^verbatim>\<open>CAMERA_SPEED = 10\<close>, for each pressed arrow key.\<close>

definition move_camera :: "Input \<Rightarrow> GameEngine \<Rightarrow> outcome" where
  "move_camera inp s =
     (if (K_LEFT inp \<or> K_RIGHT inp \<or> K_UP inp \<or> K_DOWN inp) \<and> zoom_level s = 0
      then (Some ZeroDivisionError, s)
      else
        (None, s\<lparr>camera_x := camera_x s
                    + (if K_LEFT inp then 10 / zoom_level s else 0)
                    - (if K_RIGHT inp then 10 / zoom_level s else 0),
                  camera_y := camera_y s
                    + (if K_UP inp then 10 / zoom_level s else 0)
                    - (if K_DOWN inp then 10 / zoom_level s else 0)\<rparr>))"

definition wasd_dx :: "Input \<Rightarrow> real" where
  "wasd_dx inp = 0 - (if K_a inp then 1 else 0) + (if K_d inp then 1 else 0)"

definition wasd_dy :: "Input \<Rightarrow> real" where
  "wasd_dy inp = 0 - (if K_w inp then 1 else 0) + (if K_s inp then 1 else 0)"

text \<open>The loop over the selected entities; only units have \<^verbatim>\<open>speed\<close>.\<close>

fun wasd_move :: "real \<Rightarrow> real \<Rightarrow> eref list \<Rightarrow> unit_heap \<Rightarrow> unit_heap" where
  "wasd_move dx dy [] us = us"
| "wasd_move dx dy (UnitRef r # rest) us =
     (let norm = sqrt (dx\<^sup>2 + dy\<^sup>2) in
      if norm = 0 then wasd_move dx dy rest us
      else
        let move_x = (dx / norm) * speed (us r);
            move_y = (dy / norm) * speed (us r)
        in wasd_move dx dy rest
             (us(r := (us r)\<lparr>Entity.x := Entity.x (us r) + move_x,
                              Entity.y := Entity.y (us r) + move_y\<rparr>)))"
| "wasd_move dx dy (BuildingRef r # rest) us = wasd_move dx dy rest us"

definition move_selected :: "Input \<Rightarrow> GameEngine \<Rightarrow> GameEngine" where
  "move_selected inp s =
     (let dx = wasd_dx inp; dy = wasd_dy inp in
      if dx \<noteq> 0 \<or> dy \<noteq> 0
      then s\<lparr>uheap := wasd_move dx dy (selected_entities s) (uheap s)\<rparr> else s)"

text \<open>\<^verbatim>\<open>get_camera_limits\<close> and \<^verbatim>\<open>clamp_camera_position\<close>.\<close>

definition get_camera_limits :: "Input \<Rightarrow> GameEngine \<Rightarrow> real \<times> real \<times> real \<times> real" where
  "get_camera_limits inp s =
     (let map_width = real_of_int (GameMap.width (game_map s)) * 32 * zoom_level s;
          map_height = real_of_int (GameMap.height (game_map s)) * 16 * zoom_level s;
          screen_width = fst (screen_size inp);
          screen_height = snd (screen_size inp);
          padding = 100;
          min_x = screen_width - map_width - padding;
          max_x = padding;
          min_y = screen_height - map_height - padding;
          max_y = padding
      in (min_x, max_x, min_y, max_y))"

definition clamp_camera_position :: "Input \<Rightarrow> GameEngine \<Rightarrow> GameEngine" where
  "clamp_camera_position inp s =
     (case get_camera_limits inp s of (min_x, max_x, min_y, max_y) \<Rightarrow>
        s\<lparr>camera_x := max min_x (min max_x (camera_x s)),
          camera_y := max min_y (min max_y (camera_y s))\<rparr>)"

subsection \<open>The entity loop and the removal passes\<close>

definition unit_refs :: "eref list \<Rightarrow> ref list" where
  "unit_refs es = concat (map (\<lambda>e. case e of UnitRef r \<Rightarrow> [r] | BuildingRef r \<Rightarrow> []) es)"

definition building_refs :: "eref list \<Rightarrow> ref list" where
  "building_refs es = concat (map (\<lambda>e. case e of UnitRef r \<Rightarrow> [] | BuildingRef r \<Rightarrow> [r]) es)"

text \<open>
  What the loop over \<open>entities\<close> carries: the stores, the resource manager and the two
  removal lists.
\<close>

record loop_state =
  l_units :: unit_heap
  l_buildings :: building_heap
  l_resources :: ResourceManager
  to_remove :: "ref list"
  to_remove_buildings :: "ref list"

text \<open>
  The loop. A unit gets its \<open>all_buildings\<close> attribute, is updated with the roster, and is
  listed for removal when its health is at most zero; a building is updated with \<open>dt = 1\<close>
  and listed likewise. An exception of \<^verbatim>\<open>Unit.update\<close> ends the loop.
\<close>

fun update_entities ::
  "eref list \<Rightarrow> ref list \<Rightarrow> ref list \<Rightarrow> loop_state \<Rightarrow> py_error option \<times> loop_state" where
  "update_entities [] all_units all_bs st = (None, st)"
| "update_entities (UnitRef r # rest) all_units all_bs st =
     (let us0 = (l_units st)(r := (l_units st r)\<lparr>all_buildings := Some all_bs\<rparr>) in
      case Unit_update r all_units us0 (l_buildings st) of
        Inl e \<Rightarrow> (Some e, st\<lparr>l_units := us0\<rparr>)
      | Inr (us1, bs1) \<Rightarrow>
          update_entities rest all_units all_bs
            (st\<lparr>l_units := us1, l_buildings := bs1,
                to_remove := (if Unit.health (us1 r) \<le> 0 then to_remove st @ [r]
                              else to_remove st)\<rparr>))"
| "update_entities (BuildingRef r # rest) all_units all_bs st =
     (case Building_update (l_buildings st r) 1 (l_resources st) of (b1, rm1) \<Rightarrow>
        update_entities rest all_units all_bs
          (st\<lparr>l_buildings := (l_buildings st)(r := b1), l_resources := rm1,
              to_remove_buildings :=
                (if Building.health b1 \<le> 0 then to_remove_buildings st @ [r]
                 else to_remove_buildings st)\<rparr>))"

text \<open>Clearing the tile back-references to a removed unit or building.\<close>

definition clear_unit :: "ref \<Rightarrow> GameMap \<Rightarrow> GameMap" where
  "clear_unit dead m =
     m\<lparr>tiles := map (map (\<lambda>t. if Tile.unit t = Some dead then t\<lparr>Tile.unit := None\<rparr> else t))
                   (tiles m)\<rparr>"

definition clear_building :: "ref \<Rightarrow> GameMap \<Rightarrow> GameMap" where
  "clear_building b m =
     m\<lparr>tiles := map (map (\<lambda>t. if building t = Some b then t\<lparr>building := None\<rparr> else t))
                   (tiles m)\<rparr>"

text \<open>The two removal loops; \<^verbatim>\<open>list.remove\<close> drops the first occurrence.\<close>

fun remove_dead_units :: "ref list \<Rightarrow> GameEngine \<Rightarrow> GameEngine" where
  "remove_dead_units [] s = s"
| "remove_dead_units (dead # rest) s =
     remove_dead_units rest
       (s\<lparr>entities := remove1 (UnitRef dead) (entities s),
          units := remove1 dead (units s),
          game_map := clear_unit dead (game_map s)\<rparr>)"

fun remove_destroyed_buildings :: "ref list \<Rightarrow> GameEngine \<Rightarrow> GameEngine" where
  "remove_destroyed_buildings [] s = s"
| "remove_destroyed_buildings (b # rest) s =
     remove_destroyed_buildings rest
       (s\<lparr>entities := remove1 (BuildingRef b) (entities s),
          buildings := remove1 b (buildings s),
          game_map := clear_building b (game_map s)\<rparr>)"

definition update_and_remove :: "GameEngine \<Rightarrow> outcome" where
  "update_and_remove s =
     (let all_units = unit_refs (entities s);
          all_bs = building_refs (entities s)
      in case update_entities (entities s) all_units all_bs
                \<lparr>l_units = uheap s, l_buildings = bheap s, l_resources = resource_manager s,
                 to_remove = [], to_remove_buildings = []\<rparr> of
           (err, st) \<Rightarrow>
             (let s1 = s\<lparr>uheap := l_units st, bheap := l_buildings st,
                         resource_manager := l_resources st\<rparr>
              in case err of
                   Some e \<Rightarrow> (Some e, s1)
                 | None \<Rightarrow>
                     (None, remove_destroyed_buildings (to_remove_buildings st)
                              (remove_dead_units (to_remove st) s1))))"

subsection \<open>Placement preview, win check, the whole update\<close>

text \<open>
  The preview building follows the mouse: its \<open>x\<close> and \<open>y\<close> are set to the tile found under
  the mouse position.
\<close>

definition update_placement_preview :: "Input \<Rightarrow> GameEngine \<Rightarrow> outcome" where
  "update_placement_preview inp s =
     (case placement_preview s of
        None \<Rightarrow> (None, s)
      | Some p \<Rightarrow>
          if zoom_level s = 0 then (Some ZeroDivisionError, s)
          else
            let world_x = (fst (mouse_pos inp) - camera_x s) / zoom_level s;
                world_y = (snd (mouse_pos inp) - camera_y s) / zoom_level s
            in case get_tile_at_screen_pos (game_map s) world_x world_y
                      (zoom_level s) (camera_x s) (camera_y s) of
                 None \<Rightarrow> (None, s)
               | Some t \<Rightarrow>
                   (None, s\<lparr>bheap := (bheap s)
                       (p := (bheap s p)\<lparr>Entity.x := real_of_int (Tile.x t),
                                          Entity.y := real_of_int (Tile.y t)\<rparr>)\<rparr>))"

text \<open>The living enemy swordsmen of \<open>units\<close>, and the win check that latches the flag.\<close>

definition enemy_swordsmen :: "GameEngine \<Rightarrow> ref list" where
  "enemy_swordsmen s =
     filter (\<lambda>u. unit_type (uheap s u) = ''Swordsman'' \<and> team (uheap s u) = ''enemy'' \<and>
                 Unit.health (uheap s u) > 0) (units s)"

definition check_win :: "GameEngine \<Rightarrow> GameEngine" where
  "check_win s =
     (if \<not> win_message_shown s then
        (if length (enemy_swordsmen s) = 0 then s\<lparr>win_message_shown := True\<rparr> else s)
      else s)"

text \<open>The body under \<^verbatim>\<open>if not self.paused\<close>.\<close>

definition tick_body :: "Input \<Rightarrow> GameEngine \<Rightarrow> outcome" where
  "tick_body inp s =
     and_then
       (and_then
          (move_camera inp (s\<lparr>uheap := enemy_ai (units s) (units s) (uheap s)\<rparr>))
          (\<lambda>s1. update_and_remove (clamp_camera_position inp (move_selected inp s1))))
       (update_placement_preview inp)"

text \<open>
  \<^verbatim>\<open>GameEngine.update\<close>: the whole method is inside \<^verbatim>\<open>try\<close>, so an exception of the body is
  printed and the win check is not reached.
\<close>

definition update_body :: "Input \<Rightarrow> GameEngine \<Rightarrow> outcome" where
  "update_body inp s = (if \<not> paused s then tick_body inp s else (None, s))"

definition GameEngine_update :: "Input \<Rightarrow> GameEngine \<Rightarrow> GameEngine" where
  "GameEngine_update inp s =
     (case update_body inp s of
        (Some e, s1) \<Rightarrow> s1
      | (None, s1) \<Rightarrow> check_win s1)"

subsection \<open>Runs of the driver\<close>

text \<open>
  Adding a swordsman as \<^verbatim>\<open>GameEngine.__init__\<close> does for the enemy ones (and the spawn click
  for the player's): for a tile \<open>(tx, ty)\<close> on the map, the unit is built at the tile's
  isometric position and appended to \<open>entities\<close> and \<open>units\<close>, and the tile gets its
  back-reference; for a tile off the map nothing is added. \<open>r\<close> is the reference of the new
  object.
\<close>

definition add_swordsman :: "ref \<Rightarrow> int \<Rightarrow> int \<Rightarrow> string \<Rightarrow> GameEngine \<Rightarrow> GameEngine" where
  "add_swordsman r tx ty uteam s =
     (let m = game_map s in
      if 0 \<le> tx \<and> tx < GameMap.width m \<and> 0 \<le> ty \<and> ty < GameMap.height m then
        (let iso_x = (tx - ty) * 32;
             iso_y = (tx + ty) * 16;
             u = Unit_init (real_of_int iso_x) (real_of_int iso_y) ''Swordsman'' uteam;
             row = tiles m ! nat ty
         in s\<lparr>entities := entities s @ [UnitRef r],
               units := units s @ [r],
               uheap := (uheap s)(r := u),
               game_map :=
                 m\<lparr>tiles := (tiles m)[nat ty := row[nat tx := (row ! nat tx)\<lparr>Tile.unit := Some r\<rparr>]]\<rparr>\<rparr>)
      else s)"

datatype step = Tick Input | AddSwordsman ref int int string

fun run :: "step list \<Rightarrow> GameEngine \<Rightarrow> GameEngine" where
  "run [] s = s"
| "run (Tick inp # rest) s = run rest (GameEngine_update inp s)"
| "run (AddSwordsman r tx ty uteam # rest) s = run rest (add_swordsman r tx ty uteam s)"

text \<open>No key pressed, the mouse in the corner of a 1280 by 720 screen.\<close>

definition idle_input :: Input where
  "idle_input = \<lparr> K_LEFT = False, K_RIGHT = False, K_UP = False, K_DOWN = False,
     K_a = False, K_d = False, K_w = False, K_s = False,
     mouse_pos = (0, 0), screen_size = (1280, 720) \<rparr>"

text \<open>
  A driver state on a 71 by 71 map with tiles \<open>ts\<close>: the enemy keep of the initial state with
  health \<open>h\<close>, two player swordsmen standing where a spawn on the tiles (3, 0) and (4, 0)
  puts them, and the first enemy swordsman of the initial state. \<open>ab\<close> is the \<open>all_buildings\<close>
  attribute of the three units.
\<close>

definition siege_engine :: "Tile list list \<Rightarrow> ref list option \<Rightarrow> real \<Rightarrow> GameEngine" where
  "siege_engine ts ab h =
     \<lparr> paused = False, selected_entities = [],
       entities = [BuildingRef 0, UnitRef 0, UnitRef 1, UnitRef 2],
       buildings = [0], units = [0, 1, 2],
       camera_x = 0, camera_y = 0, zoom_level = 1,
       resource_manager = ResourceManager_init,
       game_map = \<lparr> GameMap.width = 71, height = 71, tiles = ts \<rparr>,
       placement_preview = None, win_message_shown = False,
       uheap = (\<lambda>r. Unit_init 0 0 ''Swordsman'' ''player'')
         (0 := (Unit_init 96 48 ''Swordsman'' ''player'')\<lparr>all_buildings := ab\<rparr>,
          1 := (Unit_init 128 64 ''Swordsman'' ''player'')\<lparr>all_buildings := ab\<rparr>,
          2 := (Unit_init 1632 976 ''Swordsman'' ''enemy'')\<lparr>all_buildings := ab\<rparr>),
       bheap = (\<lambda>r. Building_init 65 5 ''EnemyStonekeep'' False)
         (0 := (Building_init 65 5 ''EnemyStonekeep'' False)\<lparr>Building.health := h\<rparr>) \<rparr>"

text \<open>The same state once the keep has been removed by the driver.\<close>

definition razed_engine :: "Tile list list \<Rightarrow> real \<Rightarrow> GameEngine" where
  "razed_engine ts h =
     (siege_engine ts (Some [0]) h)
       \<lparr> entities := [UnitRef 0, UnitRef 1, UnitRef 2], buildings := [],
         game_map := clear_building 0 \<lparr> GameMap.width = 71, height = 71, tiles = ts \<rparr> \<rparr>"

text \<open>
  A driver state in placement mode on a 4 by 2 grass map: building 1 is the preview built by
  \<^verbatim>\<open>Building(0, 0, "Farm")\<close>, drawn once at zoom 1 (so its cache holds that zoom); the mouse
  is over the tile (3, 1).
\<close>

definition grass_map42 :: GameMap where
  "grass_map42 = \<lparr> GameMap.width = 4, height = 2,
     tiles = [map (\<lambda>tx. Tile_init tx 0 GRASS) [0, 1, 2, 3],
              map (\<lambda>tx. Tile_init tx 1 GRASS) [0, 1, 2, 3]] \<rparr>"

definition preview_engine :: GameEngine where
  "preview_engine =
     (siege_engine [] None 100)
       \<lparr> game_map := grass_map42, placement_preview := Some 1,
         bheap := (bheap (siege_engine [] None 100))
           (1 := snd (Entity_get_screen_pos (Building_init 0 0 ''Farm'' False) 1)) \<rparr>"

definition preview_input :: Input where
  "preview_input = idle_input\<lparr>mouse_pos := (64, 64)\<rparr>"

subsection \<open>The candidate step, and scenes for the examples\<close>

text \<open>The candidate next position \<open>(next_x, next_y)\<close> as the movement code computes it.\<close>

definition step_toward :: "Unit \<Rightarrow> real \<times> real \<Rightarrow> real \<times> real" where
  "step_toward u tp =
     (let dx = fst tp - Entity.x u; dy = snd tp - Entity.y u;
          distance = sqrt (dx\<^sup>2 + dy\<^sup>2)
      in (Entity.x u + (dx / distance) * speed u, Entity.y u + (dy / distance) * speed u))"

text \<open>
  Three player swordsmen on a line: unit 0 one pixel from its destination, unit 1 sixty
  pixels from its own, unit 2 standing eighteen pixels beyond unit 1's next step.
\<close>

definition march_units :: unit_heap where
  "march_units = (\<lambda>r. Unit_init 500 500 ''Swordsman'' ''enemy'')
     (0 := (Unit_init 0 0 ''Swordsman'' ''player'')
              \<lparr>target_pos := Some (1, 0), all_buildings := Some [0]\<rparr>,
      1 := (Unit_init 40 0 ''Swordsman'' ''player'')
              \<lparr>target_pos := Some (100, 0), all_buildings := Some [0]\<rparr>,
      2 := Unit_init 60 0 ''Swordsman'' ''player'')"

text \<open>The enemy keep of the driver's initial state, under every reference.\<close>

definition keep_buildings :: building_heap where
  "keep_buildings = (\<lambda>r. Building_init 65 5 ''EnemyStonekeep'' False)"

text \<open>A player swordsman with 5 health next to an enemy whose attack damage is 20000.\<close>

definition duel_units :: unit_heap where
  "duel_units = (\<lambda>r. Unit_init 1000 1000 ''Swordsman'' ''player'')
     (0 := (Unit_init 0 0 ''Swordsman'' ''player'')\<lparr>Unit.health := 5\<rparr>,
      1 := (Unit_init 3 4 ''Swordsman'' ''enemy'')\<lparr>attack_damage := 20000\<rparr>)"



section \<open>Map: coordinate round trip and placement\<close>



lemma set_py_range: "set (py_range n) = {0..<n}"
proof -
  have "int ` {0..<nat n} = {0..<n}"
  proof (intro set_eqI iffI)
    fix k assume "k \<in> int ` {0..<nat n}"
    then show "k \<in> {0..<n}" by auto
  next
    fix k assume k: "k \<in> {0..<n}"
    then have "k = int (nat k)" "nat k \<in> {0..<nat n}" by auto
    then show "k \<in> int ` {0..<nat n}" by blast
  qed
  then show ?thesis by (simp add: py_range_def)
qed

lemma get_tile_at_wf:
  assumes "wf_map m"
  shows "get_tile_at m tx ty =
           Inr (if 0 \<le> tx \<and> tx < GameMap.width m \<and> 0 \<le> ty \<and> ty < GameMap.height m
                then Some (tiles m ! nat ty ! nat tx) else None)"
proof (cases "0 \<le> tx \<and> tx < GameMap.width m \<and> 0 \<le> ty \<and> ty < GameMap.height m")
  case True
  from assms have len: "length (tiles m) = nat (GameMap.height m)"
    and rows: "\<forall>row \<in> set (tiles m). length row = nat (GameMap.width m)"
    by (simp_all add: wf_map_def list_all_iff)
  from True len have a: "nat ty < length (tiles m)" by simp
  then have "tiles m ! nat ty \<in> set (tiles m)" by simp
  with rows have "length (tiles m ! nat ty) = nat (GameMap.width m)" by blast
  with True have b: "nat tx < length (tiles m ! nat ty)" by simp
  from True a b show ?thesis by (simp add: get_tile_at_def)
next
  case False
  then show ?thesis by (simp add: get_tile_at_def)
qed

lemma can_build_row_wf:
  "wf_map m \<Longrightarrow> can_build_row m bx ty dxs = Inr (\<forall>dx \<in> set dxs. tile_free m (bx + dx) ty)"
  by (induction dxs) (auto simp: get_tile_at_wf tile_free_def)

lemma can_build_rows_wf:
  "wf_map m \<Longrightarrow>
   can_build_rows m bx by w dys =
     Inr (\<forall>dy \<in> set dys. \<forall>dx \<in> {0..<w}. tile_free m (bx + dx) (by + dy))"
  by (induction dys) (auto simp: can_build_row_wf set_py_range split: bool.splits)

text \<open>
  C7: on a grid of \<open>height\<close> rows of \<open>width\<close> tiles, \<^verbatim>\<open>can_build_at\<close> returns true exactly
  when every tile covered by the \<open>w\<close>-by-\<open>h\<close> rectangle at \<open>(bx, by)\<close> is in bounds, has terrain
  GRASS and holds no building reference; otherwise it returns false.
\<close>

theorem can_build_at_iff:
  "wf_map m \<Longrightarrow>
   can_build_at m bx by w h =
     Inr (\<forall>dy \<in> {0..<h}. \<forall>dx \<in> {0..<w}. tile_free m (bx + dx) (by + dy))"
  by (simp add: can_build_at_def can_build_rows_wf set_py_range)

lemma atLeast0LessThan2_int: "{0..<2::int} = {0, 1}" by auto

text \<open>
  The 2-by-2 placements: all GRASS (true), one MOUNTAIN tile (false), partly off the map (false).
\<close>

theorem can_build_at_iff_witness:
  "wf_map grass_map2 \<and> can_build_at grass_map2 0 0 2 2 = Inr True \<and>
   wf_map mountain_map2 \<and> can_build_at mountain_map2 0 0 2 2 = Inr False \<and>
   can_build_at grass_map2 1 1 2 2 = Inr False"
proof -
  have g: "wf_map grass_map2" by (simp add: wf_map_def grass_map2_def)
  have m: "wf_map mountain_map2" by (simp add: wf_map_def mountain_map2_def)
  have 1: "can_build_at grass_map2 0 0 2 2 = Inr True"
    using can_build_at_iff [OF g, of 0 0 2 2]
    by (simp add: atLeast0LessThan2_int tile_free_def grass_map2_def Tile_init_def)
  have 2: "can_build_at mountain_map2 0 0 2 2 = Inr False"
    using can_build_at_iff [OF m, of 0 0 2 2]
    by (simp add: atLeast0LessThan2_int tile_free_def mountain_map2_def Tile_init_def)
  have 3: "can_build_at grass_map2 1 1 2 2 = Inr False"
    using can_build_at_iff [OF g, of 1 1 2 2]
    by (auto simp add: atLeast0LessThan2_int tile_free_def grass_map2_def Tile_init_def)
  from g m 1 2 3 show ?thesis by simp
qed

section \<open>Unit update: the combat loops\<close>

lemma hit_static [simp]:
  "Entity.x (hit s v us r) = Entity.x (us r)"
  "Entity.y (hit s v us r) = Entity.y (us r)"
  "team (hit s v us r) = team (us r)"
  "attack_damage (hit s v us r) = attack_damage (us r)"
  "speed (hit s v us r) = speed (us r)"
  "all_buildings (hit s v us r) = all_buildings (us r)"
  by (simp_all add: hit_def Let_def)

lemma fights_hit [simp]: "fights (hit s v us) s w = fights us s w"
  by (simp add: fights_def)

lemma hit_health:
  "v \<noteq> s \<Longrightarrow>
   Unit.health (hit s v us r) =
     (if r = v then Unit.health (us v) - attack_damage (us s) * 0.1
      else if r = s then Unit.health (us s) - attack_damage (us v) * 0.05
      else Unit.health (us r))"
  by (simp add: hit_def Let_def)

lemma hit_target:
  "target_pos (hit s v us r) = (if r = s then None else target_pos (us r))"
  by (simp add: hit_def Let_def)

lemma attack_units_static:
  "Entity.x (fst (attack_units s l us d) r) = Entity.x (us r)"
  "Entity.y (fst (attack_units s l us d) r) = Entity.y (us r)"
  "team (fst (attack_units s l us d) r) = team (us r)"
  "attack_damage (fst (attack_units s l us d) r) = attack_damage (us r)"
  "speed (fst (attack_units s l us d) r) = speed (us r)"
  "all_buildings (fst (attack_units s l us d) r) = all_buildings (us r)"
  by (induction l arbitrary: us d; simp)+

lemma attack_units_flag:
  "snd (attack_units s l us d) = (d \<or> (\<exists>v \<in> set l. fights us s v))"
  by (induction l arbitrary: us d) auto

lemma attack_units_target:
  "target_pos (fst (attack_units s l us d) r) =
     (if r = s \<and> (\<exists>v \<in> set l. fights us s v) then None else target_pos (us r))"
  by (induction l arbitrary: us d) (auto simp: hit_target)

lemma attack_units_health_other:
  "r \<noteq> s \<Longrightarrow>
   Unit.health (fst (attack_units s l us d) r) =
     Unit.health (us r)
       - real (count_list l r) * (if fights us s r then attack_damage (us s) * 0.1 else 0)"
proof (induction l arbitrary: us d)
  case Nil
  then show ?case by simp
next
  case (Cons v l)
  show ?case
  proof (cases "fights us s v")
    case True
    then have vs: "v \<noteq> s" by (simp add: fights_def)
    from True Cons.prems vs show ?thesis
      by (simp add: Cons.IH [OF Cons.prems] hit_health algebra_simps)
  next
    case False
    with Cons.prems show ?thesis
      by (auto simp add: Cons.IH [OF Cons.prems])
  qed
qed

lemma attack_units_health_self:
  "Unit.health (fst (attack_units s l us d) s) =
     Unit.health (us s)
       - (\<Sum>v \<leftarrow> l. if fights us s v then attack_damage (us v) * 0.05 else 0)"
proof (induction l arbitrary: us d)
  case Nil
  then show ?case by simp
next
  case (Cons v l)
  show ?case
  proof (cases "fights us s v")
    case True
    then have vs: "v \<noteq> s" by (simp add: fights_def)
    from True vs show ?thesis
      by (simp add: Cons.IH hit_health cong: if_cong)
  next
    case False
    then show ?thesis
      by (simp add: Cons.IH)
  qed
qed

lemma attack_units_idle:
  "\<not> (\<exists>v \<in> set l. fights us s v) \<Longrightarrow> attack_units s l us d = (us, d)"
  by (induction l arbitrary: us d) auto



lemma sieges_frame [simp]:
  "sieges (u\<lparr>target_pos := t\<rparr>) b = sieges u b"
  "sieges u (b\<lparr>Building.health := h\<rparr>) = sieges u b"
  by (simp_all add: sieges_def rect_dist_def closest_point_def)

lemma sieges_store [simp]:
  "sieges u ((bs(b := (bs b)\<lparr>Building.health := h\<rparr>)) r) = sieges u (bs r)"
  by (cases "r = b") simp_all

lemma attack_buildings_units:
  "fst (attack_buildings s l us bs d) =
     (if \<exists>b \<in> set l. sieges (us s) (bs b) then us(s := (us s)\<lparr>target_pos := None\<rparr>) else us)"
  by (induction l arbitrary: us bs d) auto



lemma attack_buildings_idle:
  "\<not> (\<exists>b \<in> set l. sieges (us s) (bs b)) \<Longrightarrow> attack_buildings s l us bs d = (us, bs, d)"
  by (induction l arbitrary: us bs d) auto

lemma blocked_by_units_iff:
  "blocked_by_units nx ny s l us \<longleftrightarrow>
     (\<exists>v \<in> set l. v \<noteq> s \<and> euclid nx ny (Entity.x (us v)) (Entity.y (us v)) < 28)"
  by (induction l) auto

lemma blocked_by_buildings_iff:
  "blocked_by_buildings nx ny l bs \<longleftrightarrow> (\<exists>b \<in> set l. rect_dist nx ny (bs b) < 16)"
  by (induction l) auto

section \<open>Unit update: movement\<close>

lemma attack_buildings_static:
  "building_type (fst (snd (attack_buildings s l us bs d)) r) = building_type (bs r)"
  "Entity.x (fst (snd (attack_buildings s l us bs d)) r) = Entity.x (bs r)"
  "Entity.y (fst (snd (attack_buildings s l us bs d)) r) = Entity.y (bs r)"
  "Entity.width (fst (snd (attack_buildings s l us bs d)) r) = Entity.width (bs r)"
  "Entity.height (fst (snd (attack_buildings s l us bs d)) r) = Entity.height (bs r)"
  by (induction l arbitrary: us bs d; simp)+

lemma Unit_update_idle:
  assumes nf: "\<forall>v \<in> set l. \<not> fights us s v"
    and ns: "\<forall>b \<in> set (get_all_buildings (us s)). \<not> sieges (us s) (bs b)"
  shows "Unit_update s l us bs =
     (case (case target_pos (us s) of Some tp \<Rightarrow> move s l tp us bs | None \<Rightarrow> Inr us) of
        Inl e \<Rightarrow> Inl e
      | Inr us3 \<Rightarrow> Inr (us3(s := (us3 s)\<lparr>Unit.health := max 0 (Unit.health (us3 s))\<rparr>), bs))"
proof -
  from nf have a: "attack_units s l us False = (us, False)"
    by (simp add: attack_units_idle)
  from ns have b: "attack_buildings s (get_all_buildings (us s)) us bs False = (us, bs, False)"
    by (simp add: attack_buildings_idle)
  show ?thesis
    by (simp add: Unit_update_def a b split: option.splits)
qed

text \<open>
  C1, as the code has it: for a unit with a destination set and no combat this tick, if the
  Euclidean distance from its position to the destination is at most its speed, one call of
  \<^verbatim>\<open>Unit.update\<close> unsets the destination and leaves the position where it was; the unit is
  not placed on the destination.
\<close>

theorem arrival_clears_destination:
  assumes "target_pos (us self) = Some (tx, ty)"
    and "\<forall>v \<in> set all_units. \<not> fights us self v"
    and "\<forall>b \<in> set (get_all_buildings (us self)). \<not> sieges (us self) (bs b)"
    and "euclid tx ty (Entity.x (us self)) (Entity.y (us self)) \<le> speed (us self)"
  shows "Unit_update self all_units us bs =
           Inr (us(self := (us self)\<lparr>target_pos := None,
                                      Unit.health := max 0 (Unit.health (us self))\<rparr>), bs)"
  using assms(1,4)
  by (simp add: Unit_update_idle [OF assms(2,3)] move_def euclid_def Let_def)

text \<open>The candidate step has the length of the speed.\<close>

lemma unit_step_sq:
  fixes a b s :: real
  assumes "0 < a\<^sup>2 + b\<^sup>2"
  shows "(a / sqrt (a\<^sup>2 + b\<^sup>2) * s)\<^sup>2 + (b / sqrt (a\<^sup>2 + b\<^sup>2) * s)\<^sup>2 = s\<^sup>2"
proof -
  define d where "d = sqrt (a\<^sup>2 + b\<^sup>2)"
  have dd: "d\<^sup>2 = a\<^sup>2 + b\<^sup>2" using assms by (simp add: d_def)
  have "(a / d * s)\<^sup>2 + (b / d * s)\<^sup>2 = (a\<^sup>2 + b\<^sup>2) * s\<^sup>2 / d\<^sup>2"
    by (simp add: power_mult_distrib power_divide add_divide_distrib distrib_right)
  also have "\<dots> = s\<^sup>2" using assms by (auto simp add: dd)
  finally show ?thesis by (simp add: d_def)
qed

lemma step_toward_length:
  assumes "tp \<noteq> (Entity.x u, Entity.y u)" and "0 \<le> speed u"
  shows "euclid (fst (step_toward u tp)) (snd (step_toward u tp)) (Entity.x u) (Entity.y u) = speed u"
proof -
  let ?dx = "fst tp - Entity.x u" and ?dy = "snd tp - Entity.y u"
  from assms(1) have "?dx \<noteq> 0 \<or> ?dy \<noteq> 0" by (cases tp) auto
  then have pos: "0 < ?dx\<^sup>2 + ?dy\<^sup>2"
    by (metis add_pos_nonneg add_nonneg_pos zero_le_power2 zero_less_power2)
  have "sqrt ((?dx / sqrt (?dx\<^sup>2 + ?dy\<^sup>2) * speed u)\<^sup>2
            + (?dy / sqrt (?dx\<^sup>2 + ?dy\<^sup>2) * speed u)\<^sup>2) = speed u"
    using assms(2) by (simp only: unit_step_sq [OF pos]) simp
  then show ?thesis
    by (simp only: step_toward_def euclid_def Let_def fst_conv snd_conv add_diff_cancel_left')
qed

text \<open>
  C3: for a unit with a destination set, no combat this tick and the destination farther
  away than its speed, the candidate next position (not the current one) is tested against
  every other unit (blocked when closer than 28) and every building (blocked when the closest
  point of its rectangle is closer than 16). When blocked, the position is unchanged and the
  destination is cleared; otherwise the unit stands on the candidate position.
\<close>

theorem blocked_move_abandons:
  assumes "target_pos (us self) = Some (tx, ty)"
    and "\<forall>v \<in> set all_units. \<not> fights us self v"
    and "\<forall>b \<in> set (get_all_buildings (us self)). \<not> sieges (us self) (bs b)"
    and "euclid tx ty (Entity.x (us self)) (Entity.y (us self)) > speed (us self)"
    and "(tx, ty) \<noteq> (Entity.x (us self), Entity.y (us self))"
    and "step_toward (us self) (tx, ty) = (next_x, next_y)"
    and "blocked \<longleftrightarrow>
           (\<exists>v \<in> set all_units. v \<noteq> self \<and>
               euclid next_x next_y (Entity.x (us v)) (Entity.y (us v)) < 28) \<or>
           (\<exists>b \<in> set (get_all_buildings (us self)). rect_dist next_x next_y (bs b) < 16)"
  shows "Unit_update self all_units us bs =
           Inr (us(self :=
                  (if blocked then (us self)\<lparr>target_pos := None\<rparr>
                   else (us self)\<lparr>Entity.x := next_x, Entity.y := next_y\<rparr>)
                  \<lparr>Unit.health := max 0 (Unit.health (us self))\<rparr>), bs)"
proof -
  let ?dx = "tx - Entity.x (us self)" and ?dy = "ty - Entity.y (us self)"
  from assms(5) have nz: "sqrt (?dx\<^sup>2 + ?dy\<^sup>2) \<noteq> 0"
    by (auto simp: sum_power2_eq_zero_iff)
  from assms(4) have far: "sqrt (?dx\<^sup>2 + ?dy\<^sup>2) > speed (us self)"
    by (simp add: euclid_def)
  have mv0: "move self all_units (tx, ty) us bs =
      (case step_toward (us self) (tx, ty) of (nx, ny) \<Rightarrow>
         if blocked_by_units nx ny self all_units us \<or>
            blocked_by_buildings nx ny (get_all_buildings (us self)) bs
         then Inr (us(self := (us self)\<lparr>target_pos := None\<rparr>))
         else Inr (us(self := (us self)\<lparr>Entity.x := nx, Entity.y := ny\<rparr>)))"
    using nz far by (auto simp add: move_def step_toward_def Let_def)
  have mv: "move self all_units (tx, ty) us bs =
      Inr (us(self := (if blocked then (us self)\<lparr>target_pos := None\<rparr>
                       else (us self)\<lparr>Entity.x := next_x, Entity.y := next_y\<rparr>)))"
    using assms(7)
    by (auto simp add: mv0 assms(6) blocked_by_units_iff blocked_by_buildings_iff)
  show ?thesis
    using assms(1) by (simp add: Unit_update_idle [OF assms(2,3)] mv)
qed

section \<open>Unit update: health\<close>

lemma attack_buildings_unit_fields:
  "Entity.x (fst (attack_buildings s l us bs d) r) = Entity.x (us r)"
  "Entity.y (fst (attack_buildings s l us bs d) r) = Entity.y (us r)"
  "team (fst (attack_buildings s l us bs d) r) = team (us r)"
  "attack_damage (fst (attack_buildings s l us bs d) r) = attack_damage (us r)"
  "Unit.health (fst (attack_buildings s l us bs d) r) = Unit.health (us r)"
  by (simp_all add: attack_buildings_units)

lemma move_health:
  "move s l tp us bs = Inr us' \<Longrightarrow> Unit.health (us' r) = Unit.health (us r)"
  by (auto simp: move_def Let_def split: if_splits)

text \<open>The health of every unit after a completed update, in terms of the first loop.\<close>

lemma Unit_update_health:
  assumes "Unit_update s l us bs = Inr (us', bs')"
  shows "Unit.health (us' r) =
           (if r = s then max 0 (Unit.health (fst (attack_units s l us False) s))
            else Unit.health (fst (attack_units s l us False) r))"
proof -
  obtain us1 du where a: "attack_units s l us False = (us1, du)"
    by (cases "attack_units s l us False")
  obtain us2 bs2 db where b: "attack_buildings s (get_all_buildings (us1 s)) us1 bs False = (us2, bs2, db)"
    by (cases "attack_buildings s (get_all_buildings (us1 s)) us1 bs False")
  have h2: "\<And>q. Unit.health (us2 q) = Unit.health (us1 q)"
    using attack_buildings_unit_fields(5) [of s "get_all_buildings (us1 s)" us1 bs False] b
    by simp
  from assms a b obtain us3 where
    c: "(case target_pos (us2 s) of
              Some tp \<Rightarrow> if \<not> (du \<or> db) then move s l tp us2 bs2 else Inr us2
            | None \<Rightarrow> Inr us2) = Inr us3"
    and d: "us' = us3(s := (us3 s)\<lparr>Unit.health := max 0 (Unit.health (us3 s))\<rparr>)"
    by (auto simp: Unit_update_def split: sum.splits)
  from c have h3: "Unit.health (us3 r) = Unit.health (us2 r)" "Unit.health (us3 s) = Unit.health (us2 s)"
    by (auto split: option.splits if_splits dest: move_health)
  show ?thesis
    using a by (simp add: d h3 h2)
qed

text \<open>An update that fights returns, and moves nobody.\<close>

lemma Unit_update_combat:
  assumes "\<exists>v \<in> set l. fights us s v"
  shows "\<exists>us' bs'. Unit_update s l us bs = Inr (us', bs') \<and>
           (\<forall>r. Entity.x (us' r) = Entity.x (us r) \<and> Entity.y (us' r) = Entity.y (us r) \<and>
                team (us' r) = team (us r) \<and> attack_damage (us' r) = attack_damage (us r)) \<and>
           target_pos (us' s) = None"
proof -
  obtain us1 du where a: "attack_units s l us False = (us1, du)"
    by (cases "attack_units s l us False")
  obtain us2 bs2 db where b: "attack_buildings s (get_all_buildings (us1 s)) us1 bs False = (us2, bs2, db)"
    by (cases "attack_buildings s (get_all_buildings (us1 s)) us1 bs False")
  from a assms have du: du
    using attack_units_flag [of s l us False] by simp
  have f1: "\<And>r. Entity.x (us1 r) = Entity.x (us r) \<and> Entity.y (us1 r) = Entity.y (us r) \<and>
      team (us1 r) = team (us r) \<and> attack_damage (us1 r) = attack_damage (us r)"
    using attack_units_static [of s l us False] a by simp
  have t1: "target_pos (us1 s) = None"
    using attack_units_target [of s l us False s] a assms by simp
  have f2: "\<And>r. Entity.x (us2 r) = Entity.x (us1 r) \<and> Entity.y (us2 r) = Entity.y (us1 r) \<and>
      team (us2 r) = team (us1 r) \<and> attack_damage (us2 r) = attack_damage (us1 r)"
    using attack_buildings_unit_fields [of s "get_all_buildings (us1 s)" us1 bs False] b by simp
  have t2: "target_pos (us2 s) = None"
    using attack_buildings_units [of s "get_all_buildings (us1 s)" us1 bs False] b t1
    by (simp split: if_splits)
  have "Unit_update s l us bs =
          Inr (us2(s := (us2 s)\<lparr>Unit.health := max 0 (Unit.health (us2 s))\<rparr>), bs2)"
    by (simp add: Unit_update_def a b t2)
  with f1 f2 t2 show ?thesis by simp
qed

lemma fights_sym:
  "fights us u v \<Longrightarrow> fights us v u"
  by (auto simp: fights_def euclid_def power2_commute)

lemma fights_cong:
  assumes "\<And>r. Entity.x (us' r) = Entity.x (us r) \<and> Entity.y (us' r) = Entity.y (us r) \<and>
      team (us' r) = team (us r)"
  shows "fights us' u v = fights us u v"
  by (simp add: fights_def assms)

lemma duel:
  assumes f: "fights us u v"
  shows "\<exists>us1 bs1 us2 bs2.
           Unit_update u [u, v] us bs = Inr (us1, bs1) \<and>
           Unit_update v [u, v] us1 bs1 = Inr (us2, bs2) \<and>
           Unit.health (us2 u) =
             max 0 (Unit.health (us u) - attack_damage (us v) * 0.05) - attack_damage (us v) * 0.1 \<and>
           Unit.health (us2 v) =
             max 0 (Unit.health (us v) - attack_damage (us u) * 0.1 - attack_damage (us u) * 0.05)"
proof -
  from f have uv: "v \<noteq> u" by (simp add: fights_def)
  from f have nuu: "\<not> fights us u u" by (simp add: fights_def)
  from Unit_update_combat [of "[u, v]" us u bs] f
  obtain us1 bs1 where 1: "Unit_update u [u, v] us bs = Inr (us1, bs1)"
    and s1: "\<And>r. Entity.x (us1 r) = Entity.x (us r) \<and> Entity.y (us1 r) = Entity.y (us r) \<and>
                team (us1 r) = team (us r) \<and> attack_damage (us1 r) = attack_damage (us r)"
    by auto
  have f1: "fights us1 v u"
    using fights_sym [OF f] fights_cong [of us1 us v u] s1 by simp
  have nvv: "\<not> fights us1 v v" by (simp add: fights_def)
  from Unit_update_combat [of "[u, v]" us1 v bs1] f1
  obtain us2 bs2 where 2: "Unit_update v [u, v] us1 bs1 = Inr (us2, bs2)"
    by auto
  have hu1: "Unit.health (us1 u) = max 0 (Unit.health (us u) - attack_damage (us v) * 0.05)"
    using Unit_update_health [OF 1, of u] f nuu
    by (simp add: attack_units_health_self del: attack_units.simps)
  have hv1: "Unit.health (us1 v) = Unit.health (us v) - attack_damage (us u) * 0.1"
    using Unit_update_health [OF 1, of v] f uv
    by (simp add: attack_units_health_other del: attack_units.simps)
  have hu2: "Unit.health (us2 u) = Unit.health (us1 u) - attack_damage (us1 v) * 0.1"
    using Unit_update_health [OF 2, of u] f1 uv
    by (simp add: attack_units_health_other del: attack_units.simps)
  have hv2: "Unit.health (us2 v) = max 0 (Unit.health (us1 v) - attack_damage (us1 u) * 0.05)"
    using Unit_update_health [OF 2, of v] f1 nvv
    by (simp add: attack_units_health_self del: attack_units.simps)
  from 1 2 hu1 hv1 hu2 hv2 s1 show ?thesis by simp
qed

section \<open>Evaluating the scenes\<close>

lemma euclid_less_iff: "0 < c \<Longrightarrow> euclid a b p q < c \<longleftrightarrow> (a - p)\<^sup>2 + (b - q)\<^sup>2 < c\<^sup>2"
  by (metis euclid_def real_sqrt_less_iff real_sqrt_abs abs_of_pos)

lemma euclid_le_iff: "0 \<le> c \<Longrightarrow> euclid a b p q \<le> c \<longleftrightarrow> (a - p)\<^sup>2 + (b - q)\<^sup>2 \<le> c\<^sup>2"
  by (metis euclid_def real_sqrt_le_iff real_sqrt_abs abs_of_nonneg)

lemma Unit_init_simps [simp]:
  "Entity.x (Unit_init a b t m) = a" "Entity.y (Unit_init a b t m) = b"
  "team (Unit_init a b t m) = m" "Unit.health (Unit_init a b t m) = 100"
  "attack_damage (Unit_init a b t m) = 10" "speed (Unit_init a b t m) = 2"
  "target_pos (Unit_init a b t m) = None" "all_buildings (Unit_init a b t m) = None"
  by (simp_all add: Unit_init_def Entity_init_def Entity.extend_def Unit.fields_def Unit.defs Entity.defs)


lemma euclid_gt_iff: "0 \<le> c \<Longrightarrow> c < euclid a b p q \<longleftrightarrow> c\<^sup>2 < (a - p)\<^sup>2 + (b - q)\<^sup>2"
  by (metis euclid_def real_sqrt_less_iff real_sqrt_abs abs_of_nonneg)

lemma Building_init_simps [simp]:
  "Entity.x (Building_init a b t m) = a" "Entity.y (Building_init a b t m) = b"
  "building_type (Building_init a b t m) = t" "Building.health (Building_init a b t m) = 100"
  "Entity.width (Building_init a b t m) =
     (if t = ''Stonekeep'' \<or> t = ''EnemyStonekeep'' then 128 else if t = ''Stockpile'' then 256 else 64)"
  "Entity.height (Building_init a b t m) =
     (if t = ''Stonekeep'' \<or> t = ''EnemyStonekeep'' then 128 else if t = ''Stockpile'' then 32 else 64)"
  by (simp_all add: Building_init_def Entity_init_def Entity.extend_def Building.fields_def
      Building.defs Entity.defs)

lemma sqrt_3600: "sqrt 3600 = 60"
  by (rule real_sqrt_unique) simp_all

lemmas scene_simps =
  fights_def sieges_def rect_dist_def closest_point_def is_enemy_building_def lower_def
  lower_char_def euclid_less_iff euclid_le_iff euclid_gt_iff get_all_buildings_def Let_def

text \<open>
  C1 as stated fails: unit 0 of the marching scene is one pixel from its destination
  \<open>(1, 0)\<close> with speed 2 and nobody to fight; after its update the destination is unset but
  the unit still stands at \<open>(0, 0)\<close>.
\<close>

theorem arrival_leaves_position:
  "target_pos (march_units 0) = Some (1, 0) \<and>
   euclid 1 0 (Entity.x (march_units 0)) (Entity.y (march_units 0)) \<le> speed (march_units 0) \<and>
   \<not> fights march_units 0 1 \<and> \<not> fights march_units 0 2 \<and>
   \<not> sieges (march_units 0) (keep_buildings 0) \<and>
   Unit_update 0 [0, 1, 2] march_units keep_buildings =
     Inr (march_units(0 := (march_units 0)\<lparr>target_pos := None, Unit.health := 100\<rparr>),
          keep_buildings) \<and>
   Entity.x ((march_units 0)\<lparr>target_pos := None, Unit.health := 100\<rparr>) = 0 \<and>
   Entity.y ((march_units 0)\<lparr>target_pos := None, Unit.health := 100\<rparr>) = 0"
  by (simp add: Unit_update_def move_def march_units_def keep_buildings_def scene_simps)

theorem arrival_clears_destination_witness:
  "target_pos (march_units 0) = Some (1, 0) \<and>
   euclid 1 0 (Entity.x (march_units 0)) (Entity.y (march_units 0)) \<le> speed (march_units 0) \<and>
   Unit_update 0 [0, 1, 2] march_units keep_buildings =
     Inr (march_units(0 := (march_units 0)\<lparr>target_pos := None, Unit.health := 100\<rparr>), keep_buildings)"
proof -
  have 1: "target_pos (march_units 0) = Some (1, 0)"
    by (simp add: march_units_def)
  have 2: "\<forall>v \<in> set [0, 1, 2]. \<not> fights march_units 0 v"
    by (simp add: march_units_def fights_def)
  have 3: "\<forall>b \<in> set (get_all_buildings (march_units 0)).
             \<not> sieges (march_units 0) (keep_buildings b)"
    by (simp add: march_units_def keep_buildings_def scene_simps)
  have 4: "euclid 1 0 (Entity.x (march_units 0)) (Entity.y (march_units 0)) \<le> speed (march_units 0)"
    by (simp add: march_units_def scene_simps)
  have 5: "max 0 (Unit.health (march_units 0)) = 100"
    by (simp add: march_units_def)
  from arrival_clears_destination [OF 1 2 3 4] 1 4 5 show ?thesis
    by simp
qed

theorem blocked_move_abandons_witness:
  "target_pos (march_units 1) = Some (100, 0) \<and>
   speed (march_units 1) < euclid 100 0 (Entity.x (march_units 1)) (Entity.y (march_units 1)) \<and>
   step_toward (march_units 1) (100, 0) = (42, 0) \<and>
   euclid 42 0 (Entity.x (march_units 2)) (Entity.y (march_units 2)) < 28 \<and>
   Unit_update 1 [0, 1, 2] march_units keep_buildings =
     Inr (march_units(1 := (march_units 1)\<lparr>target_pos := None, Unit.health := 100\<rparr>),
          keep_buildings) \<and>
   Unit_update 1 [0, 1] march_units keep_buildings =
     Inr (march_units(1 := (march_units 1)\<lparr>Entity.x := 42, Entity.y := 0, Unit.health := 100\<rparr>),
          keep_buildings)"
proof -
  have 1: "target_pos (march_units 1) = Some (100, 0)"
    by (simp add: march_units_def)
  have 2: "\<forall>v \<in> set [0, 1, 2]. \<not> fights march_units 1 v"
    and two: "\<forall>v \<in> set [0, 1]. \<not> fights march_units 1 v"
    by (simp_all add: march_units_def fights_def)
  have 3: "\<forall>b \<in> set (get_all_buildings (march_units 1)).
             \<not> sieges (march_units 1) (keep_buildings b)"
    by (simp add: march_units_def keep_buildings_def scene_simps)
  have 4: "speed (march_units 1) < euclid 100 0 (Entity.x (march_units 1)) (Entity.y (march_units 1))"
    by (simp add: march_units_def scene_simps)
  have 5: "(100, 0) \<noteq> (Entity.x (march_units 1), Entity.y (march_units 1))"
    by (simp add: march_units_def)
  have 6: "step_toward (march_units 1) (100, 0) = (42, 0)"
    by (simp add: march_units_def step_toward_def sqrt_3600)
  have 7: "True \<longleftrightarrow>
           (\<exists>v \<in> set [0, 1, 2]. v \<noteq> 1 \<and>
               euclid 42 0 (Entity.x (march_units v)) (Entity.y (march_units v)) < 28) \<or>
           (\<exists>b \<in> set (get_all_buildings (march_units 1)). rect_dist 42 0 (keep_buildings b) < 16)"
    by (simp add: march_units_def scene_simps)
  have seven: "False \<longleftrightarrow>
           (\<exists>v \<in> set [0, 1]. v \<noteq> 1 \<and>
               euclid 42 0 (Entity.x (march_units v)) (Entity.y (march_units v)) < 28) \<or>
           (\<exists>b \<in> set (get_all_buildings (march_units 1)). rect_dist 42 0 (keep_buildings b) < 16)"
    by (simp add: march_units_def keep_buildings_def scene_simps)
  have 8: "euclid 42 0 (Entity.x (march_units 2)) (Entity.y (march_units 2)) < 28"
    by (simp add: march_units_def scene_simps)
  have 9: "max 0 (Unit.health (march_units 1)) = 100"
    by (simp add: march_units_def)
  from blocked_move_abandons [OF 1 2 3 4 5 6 7] blocked_move_abandons [OF 1 two 3 4 5 6 seven]
    1 4 6 8 9
  show ?thesis by simp
qed

section \<open>Combat claims\<close>

lemma count_list_distinct: "distinct l \<Longrightarrow> v \<in> set l \<Longrightarrow> count_list l v = 1"
  by (induction l) auto

text \<open>
  C2: when a unit is updated with a roster of distinct units, every other unit of a different
  team closer than 30 loses the updating unit's attack damage times 0.1, the updating unit
  loses that opponent's attack damage times 0.05 (summed over its opponents in range), and
  its destination is cleared; units out of range or of the same team keep their health. When
  two opposing units in range are both updated, each ends the tick with a loss fixed by the
  other's attack damage: 0.05 and 0.1 of it, the unit's own part clamped at zero by its update.
\<close>

theorem melee_exchange:
  assumes "distinct all_units"
    and "attack_units self all_units us False = (us', did)"
  shows
    "(\<forall>v \<in> set all_units.
        v \<noteq> self \<and> team (us v) \<noteq> team (us self) \<and>
        euclid (Entity.x (us self)) (Entity.y (us self)) (Entity.x (us v)) (Entity.y (us v)) < 30
        \<longrightarrow> Unit.health (us' v) = Unit.health (us v) - attack_damage (us self) * 0.1 \<and>
            target_pos (us' self) = None \<and> did) \<and>
     Unit.health (us' self) =
       Unit.health (us self)
         - (\<Sum>v \<leftarrow> all_units. if fights us self v then attack_damage (us v) * 0.05 else 0) \<and>
     (\<forall>v. v \<noteq> self \<and> \<not> fights us self v \<longrightarrow> Unit.health (us' v) = Unit.health (us v)) \<and>
     (\<forall>a b bs. fights us a b \<longrightarrow>
        (\<exists>us1 bs1 us2 bs2.
           Unit_update a [a, b] us bs = Inr (us1, bs1) \<and>
           Unit_update b [a, b] us1 bs1 = Inr (us2, bs2) \<and>
           Unit.health (us2 a) =
             max 0 (Unit.health (us a) - attack_damage (us b) * 0.05) - attack_damage (us b) * 0.1 \<and>
           Unit.health (us2 b) =
             max 0 (Unit.health (us b) - attack_damage (us a) * 0.1 - attack_damage (us a) * 0.05)))"
proof (intro conjI ballI allI impI)
  fix v
  assume v: "v \<in> set all_units"
    and h: "v \<noteq> self \<and> team (us v) \<noteq> team (us self) \<and>
        euclid (Entity.x (us self)) (Entity.y (us self)) (Entity.x (us v)) (Entity.y (us v)) < 30"
  then have f: "fights us self v" by (simp add: fights_def)
  from assms(1) v have c: "count_list all_units v = 1"
    by (simp add: count_list_distinct)
  from h f c show "Unit.health (us' v) = Unit.health (us v) - attack_damage (us self) * 0.1"
    using attack_units_health_other [of v self all_units us False] assms(2) by simp
  from f v show "target_pos (us' self) = None"
    using attack_units_target [of self all_units us False self] assms(2) by auto
  from f v show did
    using attack_units_flag [of self all_units us False] assms(2) by auto
next
  show "Unit.health (us' self) =
       Unit.health (us self)
         - (\<Sum>v \<leftarrow> all_units. if fights us self v then attack_damage (us v) * 0.05 else 0)"
    using attack_units_health_self [of self all_units us False] assms(2) by simp
next
  fix v assume "v \<noteq> self \<and> \<not> fights us self v"
  then show "Unit.health (us' v) = Unit.health (us v)"
    using attack_units_health_other [of v self all_units us False] assms(2) by simp
next
  fix a b bs assume "fights us a b"
  then show "\<exists>us1 bs1 us2 bs2.
           Unit_update a [a, b] us bs = Inr (us1, bs1) \<and>
           Unit_update b [a, b] us1 bs1 = Inr (us2, bs2) \<and>
           Unit.health (us2 a) =
             max 0 (Unit.health (us a) - attack_damage (us b) * 0.05) - attack_damage (us b) * 0.1 \<and>
           Unit.health (us2 b) =
             max 0 (Unit.health (us b) - attack_damage (us a) * 0.1 - attack_damage (us a) * 0.05)"
    by (rule duel)
qed

theorem melee_exchange_witness:
  "distinct [0::nat, 1] \<and> fights duel_units 0 1 \<and>
   Unit.health (duel_units 1) = 100 \<and> attack_damage (duel_units 0) = 10 \<and>
   Unit.health (fst (attack_units 0 [0, 1] duel_units False) 1) = 99 \<and>
   Unit.health (fst (attack_units 0 [0, 1] duel_units False) 0) = 5 - 1000 \<and>
   target_pos (fst (attack_units 0 [0, 1] duel_units False) 0) = None \<and>
   snd (attack_units 0 [0, 1] duel_units False)"
proof -
  have d: "distinct [0::nat, 1]" by simp
  have e: "attack_units 0 [0, 1] duel_units False =
      (fst (attack_units 0 [0, 1] duel_units False), snd (attack_units 0 [0, 1] duel_units False))"
    by simp
  have f: "fights duel_units 0 1" "\<not> fights duel_units 0 0"
    by (simp_all add: duel_units_def scene_simps)
  have g: "Unit.health (duel_units 1) = 100" "attack_damage (duel_units 0) = 10"
    "Unit.health (duel_units 0) = 5" "attack_damage (duel_units 1) = 20000"
    "team (duel_units 1) \<noteq> team (duel_units 0)"
    "euclid (Entity.x (duel_units 0)) (Entity.y (duel_units 0))
       (Entity.x (duel_units 1)) (Entity.y (duel_units 1)) < 30"
    by (simp_all add: duel_units_def scene_simps)
  from melee_exchange [OF d e] f g show ?thesis
    by (simp del: attack_units.simps)
qed



text \<open>
  C9: when a unit's own \<^verbatim>\<open>Unit.update\<close> returns, its health is at least zero: it is the
  health left by the damage of that update, clamped at zero. A unit with health 5 that takes
  1000 damage ends the update with health 0.
\<close>

theorem own_health_clamped:
  assumes "Unit_update self all_units us bs = Inr (us', bs')"
  shows "0 \<le> Unit.health (us' self) \<and>
         Unit.health (us' self) =
           max 0 (Unit.health (us self)
             - (\<Sum>v \<leftarrow> all_units. if fights us self v then attack_damage (us v) * 0.05 else 0))"
  using Unit_update_health [OF assms, of self]
  by (simp add: attack_units_health_self del: attack_units.simps)

theorem own_health_clamped_witness:
  "Unit.health (duel_units 0) = 5 \<and> attack_damage (duel_units 1) * 0.05 = 1000 \<and>
   \<not> isl (Unit_update 0 [0, 1] duel_units keep_buildings) \<and>
   Unit.health (fst (projr (Unit_update 0 [0, 1] duel_units keep_buildings)) 0) = 0"
proof -
  let ?r = "Unit_update 0 [0, 1] duel_units keep_buildings"
  have r: "\<not> isl ?r"
    by (simp add: Unit_update_def duel_units_def hit_def scene_simps)
  then have e: "?r = Inr (fst (projr ?r), snd (projr ?r))"
    by (cases ?r) simp_all
  have g: "Unit.health (duel_units 0) = 5" "attack_damage (duel_units 1) * 0.05 = 1000"
    "fights duel_units 0 1" "\<not> fights duel_units 0 0"
    by (simp_all add: duel_units_def scene_simps)
  from own_health_clamped [OF e] r g show ?thesis
    by simp
qed

section \<open>The driver: a siege, the win latch, the placement preview\<close>

lemma Unit_init_record:
  "Unit_init a b t m =
     \<lparr> Entity.x = a, y = b, width = 32, height = 32, selected = False,
       base_screen_x = (a - b) * 32, base_screen_y = (a + b) * 16,
       screen_pos_cache = Map.empty, unit_type = t, health = 100, max_health = 100,
       speed = 2, target_pos = None, attack_damage = 10, attack_range = 50, team = m,
       all_buildings = None \<rparr>"
  by (simp add: Unit_init_def Entity_init_def Entity.extend_def Unit.fields_def Unit.defs Entity.defs)

lemmas tick_defs = GameEngine_update_def update_body_def tick_body_def and_then_def idle_input_def
      move_camera_def move_selected_def wasd_dx_def wasd_dy_def clamp_camera_position_def
      get_camera_limits_def update_and_remove_def unit_refs_def building_refs_def
      update_placement_preview_def check_win_def enemy_swordsmen_def
      Unit_update_def Building_update_def

lemma tick_siege:
  assumes "0 < h"
  shows "GameEngine_update idle_input (siege_engine ts ab h) = siege_engine ts (Some [0]) (h - 1.6)"
  using assms
  by (simp add: GameEngine_update_def update_body_def tick_body_def and_then_def siege_engine_def idle_input_def
      move_camera_def move_selected_def wasd_dx_def wasd_dy_def clamp_camera_position_def
      get_camera_limits_def update_and_remove_def unit_refs_def building_refs_def
      update_placement_preview_def check_win_def enemy_swordsmen_def
      Unit_update_def Building_update_def scene_simps Unit_init_record)

lemma tick_razing:
  assumes "h \<le> 0"
  shows "GameEngine_update idle_input (siege_engine ts (Some [0]) h) = razed_engine ts (h - 1.6)"
  using assms
  by (simp add: tick_defs siege_engine_def razed_engine_def scene_simps Unit_init_record)

lemma ticks_siege:
  "1.6 * real k < h \<Longrightarrow>
   (GameEngine_update idle_input ^^ Suc k) (siege_engine ts ab h) =
     siege_engine ts (Some [0]) (h - 1.6 * real (Suc k))"
proof (induction k)
  case 0
  then show ?case using tick_siege [of h ts ab] by simp
next
  case (Suc k)
  then have a: "(GameEngine_update idle_input ^^ Suc k) (siege_engine ts ab h) =
     siege_engine ts (Some [0]) (h - 1.6 * real (Suc k))"
    by simp
  from Suc.prems have p: "0 < h - 1.6 * real (Suc k)" by simp
  have "(GameEngine_update idle_input ^^ Suc (Suc k)) (siege_engine ts ab h) =
      GameEngine_update idle_input ((GameEngine_update idle_input ^^ Suc k) (siege_engine ts ab h))"
    by simp
  also have "\<dots> = siege_engine ts (Some [0]) (h - 1.6 * real (Suc k) - 1.6)"
    by (simp only: a tick_siege [OF p])
  also have "h - 1.6 * real (Suc k) - 1.6 = h - 1.6 * real (Suc (Suc k))"
    by (simp add: algebra_simps)
  finally show ?case .
qed

lemma siege_63: "(GameEngine_update idle_input ^^ 63) (siege_engine ts None 100) =
     siege_engine ts (Some [0]) (- 0.8)"
proof -
  have "(GameEngine_update idle_input ^^ Suc 62) (siege_engine ts None 100) =
     siege_engine ts (Some [0]) (100 - 1.6 * real (Suc 62))"
    by (rule ticks_siege) simp
  then show ?thesis by simp
qed

lemma siege_64: "(GameEngine_update idle_input ^^ 64) (siege_engine ts None 100) =
     razed_engine ts (- 2.4)"
proof -
  have "(GameEngine_update idle_input ^^ Suc 63) (siege_engine ts None 100) =
      GameEngine_update idle_input ((GameEngine_update idle_input ^^ 63) (siege_engine ts None 100))"
    by (simp only: funpow.simps o_apply)
  also have "\<dots> = razed_engine ts (- 0.8 - 1.6)"
    by (simp only: siege_63) (rule tick_razing, simp)
  finally show ?thesis by simp
qed

lemma Building_update_health:
  "Building.health (fst (Building_update b dt rm)) = Building.health b"
  by (simp add: Building_update_def Let_def)

text \<open>
  C10: nothing bounds a building's health from below. \<^verbatim>\<open>Building.update\<close> leaves the health
  as it is, and a unit's attack subtracts without a clamp: with two player swordsmen at the
  enemy keep, the keep's health is 0.8 after 62 ticks and -0.8 after 63; the keep is still
  among the entities then, and the removal pass of tick 64 takes it out. The attacking unit's
  own health is untouched at 100.
\<close>

theorem building_health_unclamped:
  "Building.health (fst (Building_update b dt rm)) = Building.health b \<and>
   Building.health (bheap ((GameEngine_update idle_input ^^ 62) (siege_engine ts None 100)) 0)
     = 0.8 \<and>
   Building.health (bheap ((GameEngine_update idle_input ^^ 63) (siege_engine ts None 100)) 0)
     = - 0.8 \<and>
   BuildingRef 0 \<in> set (entities ((GameEngine_update idle_input ^^ 63) (siege_engine ts None 100))) \<and>
   BuildingRef 0 \<notin> set (entities ((GameEngine_update idle_input ^^ 64) (siege_engine ts None 100))) \<and>
   Unit.health (uheap ((GameEngine_update idle_input ^^ 63) (siege_engine ts None 100)) 0) = 100"
proof -
  have "(GameEngine_update idle_input ^^ Suc 61) (siege_engine ts None 100) =
     siege_engine ts (Some [0]) (100 - 1.6 * real (Suc 61))"
    by (rule ticks_siege) simp
  then have s62: "(GameEngine_update idle_input ^^ 62) (siege_engine ts None 100) =
     siege_engine ts (Some [0]) 0.8"
    by simp
  show ?thesis
    by (simp only: s62 siege_63 siege_64 Building_update_health)
       (simp add: siege_engine_def razed_engine_def)
qed

lemma remove_dead_units_win [simp]:
  "win_message_shown (remove_dead_units l s) = win_message_shown s"
  by (induction l arbitrary: s) simp_all

lemma remove_destroyed_buildings_win [simp]:
  "win_message_shown (remove_destroyed_buildings l s) = win_message_shown s"
  by (induction l arbitrary: s) simp_all

lemma move_camera_win [simp]:
  "win_message_shown (snd (move_camera inp s)) = win_message_shown s"
  by (simp add: move_camera_def)

lemma update_and_remove_win [simp]:
  "win_message_shown (snd (update_and_remove s)) = win_message_shown s"
  by (simp add: update_and_remove_def Let_def split: prod.splits option.splits)

lemma update_placement_preview_win [simp]:
  "win_message_shown (snd (update_placement_preview inp s)) = win_message_shown s"
  by (simp add: update_placement_preview_def Let_def split: option.splits)

lemma and_then_win:
  assumes "\<And>t. win_message_shown (snd (f t)) = win_message_shown t"
  shows "win_message_shown (snd (and_then r f)) = win_message_shown (snd r)"
  by (cases r) (auto simp: and_then_def assms split: option.splits)

lemma tick_body_win [simp]:
  "win_message_shown (snd (tick_body inp s)) = win_message_shown s"
proof -
  have a: "\<And>t. win_message_shown
        (snd (update_and_remove (clamp_camera_position inp (move_selected inp t)))) =
      win_message_shown t"
    by (simp add: clamp_camera_position_def move_selected_def Let_def split: prod.splits)
  show ?thesis
    unfolding tick_body_def
    by (simp add: and_then_win [of "update_placement_preview inp"]
        and_then_win [of "\<lambda>s1. update_and_remove (clamp_camera_position inp (move_selected inp s1))", OF a])
qed

lemma update_body_win [simp]:
  "win_message_shown (snd (update_body inp s)) = win_message_shown s"
  by (simp add: update_body_def)

lemma check_win_flag:
  "win_message_shown (check_win s) \<longleftrightarrow> win_message_shown s \<or> enemy_swordsmen s = []"
  by (simp add: check_win_def)

lemma GameEngine_update_win:
  "win_message_shown (GameEngine_update inp s) \<longleftrightarrow>
     win_message_shown s \<or>
     (fst (update_body inp s) = None \<and> enemy_swordsmen (snd (update_body inp s)) = [])"
proof (cases "update_body inp s")
  case (Pair err s1)
  have "win_message_shown s1 = win_message_shown s"
    using update_body_win [of inp s] Pair by simp
  with Pair show ?thesis
    by (cases err) (simp_all add: GameEngine_update_def check_win_flag)
qed

lemma add_swordsman_win [simp]:
  "win_message_shown (add_swordsman r tx ty uteam s) = win_message_shown s"
  by (simp add: add_swordsman_def Let_def)

lemma run_latch: "win_message_shown s \<Longrightarrow> win_message_shown (run steps s)"
proof (induction steps arbitrary: s)
  case Nil
  then show ?case by simp
next
  case (Cons st steps)
  show ?case
  proof (cases st)
    case (Tick inp)
    from Cons.prems have "win_message_shown (GameEngine_update inp s)"
      by (simp add: GameEngine_update_win)
    with Tick show ?thesis by (simp add: Cons.IH)
  next
    case (AddSwordsman r tx ty uteam)
    with Cons.prems show ?thesis by (simp add: Cons.IH)
  qed
qed

text \<open>The body of the update runs to its end when no speed is negative and the zoom is not zero.\<close>

lemma move_returns:
  assumes "0 \<le> speed (us s)"
  shows "\<exists>us'. move s l tp us bs = Inr us' \<and> (\<forall>r. speed (us' r) = speed (us r))"
proof -
  let ?d = "sqrt ((fst tp - Entity.x (us s))\<^sup>2 + (snd tp - Entity.y (us s))\<^sup>2)"
  show ?thesis
  proof (cases "?d > speed (us s)")
    case True
    with assms have "?d \<noteq> 0" by linarith
    with True show ?thesis
      by (simp add: move_def Let_def)
  next
    case False
    then show ?thesis by (simp add: move_def Let_def)
  qed
qed

lemma Unit_update_returns:
  assumes "0 \<le> speed (us s)"
  shows "\<exists>us' bs'. Unit_update s l us bs = Inr (us', bs') \<and> (\<forall>r. speed (us' r) = speed (us r))"
proof -
  obtain us1 du where a: "attack_units s l us False = (us1, du)"
    by (cases "attack_units s l us False")
  obtain us2 bs2 db where b: "attack_buildings s (get_all_buildings (us1 s)) us1 bs False = (us2, bs2, db)"
    by (cases "attack_buildings s (get_all_buildings (us1 s)) us1 bs False")
  have s1: "\<And>r. speed (us1 r) = speed (us r)"
    using attack_units_static(5) [of s l us False] a by simp
  have s2: "\<And>r. speed (us2 r) = speed (us1 r)"
    using attack_buildings_units [of s "get_all_buildings (us1 s)" us1 bs False] b
    by (simp split: if_splits)
  have p: "0 \<le> speed (us2 s)" using assms s1 s2 by simp
  show ?thesis
  proof (cases "target_pos (us2 s) \<noteq> None \<and> \<not> (du \<or> db)")
    case True
    then obtain tp where tp: "target_pos (us2 s) = Some tp" by auto
    from move_returns [of us2 s l tp bs2] p obtain us3 where
      m: "move s l tp us2 bs2 = Inr us3" and s3: "\<And>r. speed (us3 r) = speed (us2 r)"
      by auto
    from True tp m have "Unit_update s l us bs =
        Inr (us3(s := (us3 s)\<lparr>Unit.health := max 0 (Unit.health (us3 s))\<rparr>), bs2)"
      by (simp add: Unit_update_def a b)
    with s1 s2 s3 show ?thesis by simp
  next
    case False
    then have "Unit_update s l us bs =
        Inr (us2(s := (us2 s)\<lparr>Unit.health := max 0 (Unit.health (us2 s))\<rparr>), bs2)"
      by (auto simp add: Unit_update_def a b split: option.splits)
    with s1 s2 show ?thesis by simp
  qed
qed

lemma update_entities_completes:
  "\<forall>r. 0 \<le> speed (l_units st r) \<Longrightarrow>
   fst (update_entities es au ab st) = None \<and>
   (\<forall>r. speed (l_units (snd (update_entities es au ab st)) r) = speed (l_units st r))"
proof (induction es arbitrary: st)
  case Nil
  then show ?case by simp
next
  case (Cons e es)
  show ?case
  proof (cases e)
    case (UnitRef u)
    let ?us0 = "(l_units st)(u := (l_units st u)\<lparr>all_buildings := Some ab\<rparr>)"
    have p0: "\<And>r. speed (?us0 r) = speed (l_units st r)" by simp
    with Cons.prems have "0 \<le> speed (?us0 u)" by simp
    from Unit_update_returns [of ?us0 u au "l_buildings st"] this obtain us1 bs1 where
      r: "Unit_update u au ?us0 (l_buildings st) = Inr (us1, bs1)"
      and s: "\<And>r. speed (us1 r) = speed (?us0 r)"
      by auto
    let ?st1 = "st\<lparr>l_units := us1, l_buildings := bs1,
                to_remove := (if Unit.health (us1 u) \<le> 0 then to_remove st @ [u]
                              else to_remove st)\<rparr>"
    have q: "\<forall>r. 0 \<le> speed (l_units ?st1 r)"
      using Cons.prems s p0 by simp
    have e: "update_entities (e # es) au ab st = update_entities es au ab ?st1"
      using UnitRef r by (simp add: Let_def)
    from Cons.IH [OF q] s p0 show ?thesis
      by (simp only: e) simp
  next
    case (BuildingRef b)
    obtain b1 rm1 where u: "Building_update (l_buildings st b) 1 (l_resources st) = (b1, rm1)"
      by (cases "Building_update (l_buildings st b) 1 (l_resources st)")
    let ?st1 = "st\<lparr>l_buildings := (l_buildings st)(b := b1), l_resources := rm1,
              to_remove_buildings :=
                (if Building.health b1 \<le> 0 then to_remove_buildings st @ [b]
                 else to_remove_buildings st)\<rparr>"
    have q: "\<forall>r. 0 \<le> speed (l_units ?st1 r)"
      using Cons.prems by simp
    have e: "update_entities (e # es) au ab st = update_entities es au ab ?st1"
      using BuildingRef u by simp
    from Cons.IH [OF q] show ?thesis
      by (simp only: e) simp
  qed
qed

lemma enemy_ai_speed [simp]: "speed (enemy_ai l all_units us r) = speed (us r)"
  by (induction l arbitrary: us) (auto simp: move_to_def split: option.splits)

lemma wasd_move_speed [simp]: "speed (wasd_move dx dy l us r) = speed (us r)"
proof (induction l arbitrary: us)
  case Nil
  then show ?case by simp
next
  case (Cons e l)
  then show ?case by (cases e) (auto simp add: Let_def)
qed

lemma tick_body_completes:
  assumes z: "zoom_level s \<noteq> 0" and sp: "\<forall>r. 0 \<le> speed (uheap s r)"
  shows "fst (tick_body inp s) = None"
proof -
  let ?s0 = "s\<lparr>uheap := enemy_ai (units s) (units s) (uheap s)\<rparr>"
  obtain s1 where c: "move_camera inp ?s0 = (None, s1)"
    and z1: "zoom_level s1 = zoom_level s" and u1: "uheap s1 = uheap ?s0"
    using z by (simp add: move_camera_def)
  let ?s2 = "clamp_camera_position inp (move_selected inp s1)"
  have z2: "zoom_level ?s2 = zoom_level s"
    using z1 by (simp add: clamp_camera_position_def move_selected_def Let_def split: prod.splits)
  have sp2: "\<forall>r. 0 \<le> speed (uheap ?s2 r)"
    using sp u1 by (simp add: clamp_camera_position_def move_selected_def Let_def split: prod.splits)
  let ?st = "\<lparr>l_units = uheap ?s2, l_buildings = bheap ?s2, l_resources = resource_manager ?s2,
                 to_remove = [], to_remove_buildings = []\<rparr>"
  have "\<forall>r. 0 \<le> speed (l_units ?st r)" using sp2 by simp
  from update_entities_completes [OF this]
  have ue: "fst (update_entities (entities ?s2) (unit_refs (entities ?s2))
                  (building_refs (entities ?s2)) ?st) = None"
    by blast
  obtain s3 where r: "update_and_remove ?s2 = (None, s3)"
    and z3: "zoom_level s3 = zoom_level ?s2"
  proof -
    obtain err st' where p: "update_entities (entities ?s2) (unit_refs (entities ?s2))
                  (building_refs (entities ?s2)) ?st = (err, st')"
      by (cases "update_entities (entities ?s2) (unit_refs (entities ?s2))
                  (building_refs (entities ?s2)) ?st")
    with ue have "err = None" by simp
    with p have "update_and_remove ?s2 =
        (None, remove_destroyed_buildings (to_remove_buildings st')
                 (remove_dead_units (to_remove st')
                    (?s2\<lparr>uheap := l_units st', bheap := l_buildings st',
                          resource_manager := l_resources st'\<rparr>)))"
      by (simp add: update_and_remove_def Let_def)
    moreover have "\<And>l t. zoom_level (remove_dead_units l t) = zoom_level t"
      subgoal for l t by (induction l arbitrary: t) simp_all
      done
    moreover have "\<And>l t. zoom_level (remove_destroyed_buildings l t) = zoom_level t"
      subgoal for l t by (induction l arbitrary: t) simp_all
      done
    ultimately show ?thesis using that by simp
  qed
  have "fst (update_placement_preview inp s3) = None"
    using z z2 z3 by (simp add: update_placement_preview_def Let_def split: option.splits)
  then show ?thesis
    by (simp add: tick_body_def and_then_def c r split: prod.splits option.splits)
qed

text \<open>
  C8: the won flag is a one-way latch. Once true it stays true along every run of the driver,
  also when enemy swordsmen are added between ticks. A tick sets it exactly when it was set
  before or the body of the update ran to its end and no enemy swordsman with health above
  zero is left in \<open>units\<close>; the body does run to its end whenever the zoom is not zero and no
  unit has a negative speed.
\<close>

theorem win_latch:
  "(win_message_shown s \<longrightarrow> win_message_shown (run steps s)) \<and>
   (win_message_shown (GameEngine_update inp s) \<longleftrightarrow>
      win_message_shown s \<or>
      (fst (update_body inp s) = None \<and>
       \<not> (\<exists>u \<in> set (units (snd (update_body inp s))).
             unit_type (uheap (snd (update_body inp s)) u) = ''Swordsman'' \<and>
             team (uheap (snd (update_body inp s)) u) = ''enemy'' \<and>
             Unit.health (uheap (snd (update_body inp s)) u) > 0))) \<and>
   (zoom_level s \<noteq> 0 \<and> (\<forall>r. 0 \<le> speed (uheap s r)) \<longrightarrow> fst (update_body inp s) = None)"
proof (intro conjI impI)
  assume "win_message_shown s"
  then show "win_message_shown (run steps s)" by (rule run_latch)
next
  have "enemy_swordsmen (snd (update_body inp s)) = [] \<longleftrightarrow>
      \<not> (\<exists>u \<in> set (units (snd (update_body inp s))).
             unit_type (uheap (snd (update_body inp s)) u) = ''Swordsman'' \<and>
             team (uheap (snd (update_body inp s)) u) = ''enemy'' \<and>
             Unit.health (uheap (snd (update_body inp s)) u) > 0)"
    by (simp add: enemy_swordsmen_def filter_empty_conv)
  then show "win_message_shown (GameEngine_update inp s) \<longleftrightarrow>
      win_message_shown s \<or>
      (fst (update_body inp s) = None \<and>
       \<not> (\<exists>u \<in> set (units (snd (update_body inp s))).
             unit_type (uheap (snd (update_body inp s)) u) = ''Swordsman'' \<and>
             team (uheap (snd (update_body inp s)) u) = ''enemy'' \<and>
             Unit.health (uheap (snd (update_body inp s)) u) > 0))"
    by (simp only: GameEngine_update_win)
next
  assume "zoom_level s \<noteq> 0 \<and> (\<forall>r. 0 \<le> speed (uheap s r))"
  then show "fst (update_body inp s) = None"
    by (simp add: update_body_def tick_body_completes)
qed

theorem win_latch_witness:
  "win_message_shown (preview_engine\<lparr>win_message_shown := True\<rparr>) \<and>
   win_message_shown
     (run [AddSwordsman 3 2 1 ''enemy'', Tick idle_input, Tick idle_input]
        (preview_engine\<lparr>win_message_shown := True\<rparr>)) \<and>
   zoom_level preview_engine \<noteq> 0 \<and> (\<forall>r. 0 \<le> speed (uheap preview_engine r)) \<and>
   fst (update_body idle_input preview_engine) = None \<and>
   \<not> win_message_shown preview_engine \<and>
   (win_message_shown (GameEngine_update idle_input preview_engine) \<longleftrightarrow>
      enemy_swordsmen (snd (update_body idle_input preview_engine)) = [])"
proof -
  have w: "win_message_shown (preview_engine\<lparr>win_message_shown := True\<rparr>)" by simp
  have z: "zoom_level preview_engine \<noteq> 0" "\<forall>r. 0 \<le> speed (uheap preview_engine r)"
    "\<not> win_message_shown preview_engine"
    by (simp_all add: preview_engine_def siege_engine_def)
  from win_latch [of "preview_engine\<lparr>win_message_shown := True\<rparr>"
      "[AddSwordsman 3 2 1 ''enemy'', Tick idle_input, Tick idle_input]" idle_input]
    win_latch [of preview_engine "[]" idle_input] w z
  show ?thesis
    by (simp add: enemy_swordsmen_def filter_empty_conv del: run.simps)
qed

lemma Building_init_record:
  "Building_init a b t m =
     \<lparr> Entity.x = a, y = b,
       width = (if t = ''Stonekeep'' \<or> t = ''EnemyStonekeep'' then 128
                else if t = ''Stockpile'' then 256 else 64),
       height = (if t = ''Stonekeep'' \<or> t = ''EnemyStonekeep'' then 128
                 else if t = ''Stockpile'' then 32 else 64),
       selected = False,
       base_screen_x = (a - b) * 32, base_screen_y = (a + b) * 16,
       screen_pos_cache = Map.empty, building_type = t, health = 100, max_health = 100,
       production_rate = 0, resource_timer = 0, resource_manager = m \<rparr>"
  by (simp add: Building_init_def Entity_init_def Entity.extend_def Building.fields_def
      Building.defs Entity.defs)

text \<open>A unit's screen position follows its position: \<^verbatim>\<open>Unit.get_screen_pos\<close> has no cache.\<close>

lemma Unit_get_screen_pos_current:
  "Unit_get_screen_pos (u\<lparr>Entity.x := a, Entity.y := b\<rparr>) z = (a * z, b * z)"
  by (simp add: Unit_get_screen_pos_def)

text \<open>
  C5 fails on the placement preview: the preview building was drawn at zoom 1 at its initial
  position (0, 0); the driver then moves it to the tile (3, 1) under the mouse, and
  \<^verbatim>\<open>get_screen_pos\<close> still returns the point (0, 0) of the old position, where an entity at
  (3, 1) has the point (64, 64).
\<close>

theorem stale_preview_screen_pos:
  "fst (Entity_get_screen_pos (bheap preview_engine 1) 1) = (0, 0) \<and>
   fst (update_placement_preview preview_input preview_engine) = None \<and>
   Entity.x (bheap (snd (update_placement_preview preview_input preview_engine)) 1) = 3 \<and>
   Entity.y (bheap (snd (update_placement_preview preview_input preview_engine)) 1) = 1 \<and>
   fst (Entity_get_screen_pos
          (bheap (snd (update_placement_preview preview_input preview_engine)) 1) 1) = (0, 0) \<and>
   fst (Entity_get_screen_pos (Building_init 3 1 ''Farm'' False) 1) = (64, 64)"
  by (simp add: update_placement_preview_def preview_engine_def preview_input_def idle_input_def
      siege_engine_def grass_map42_def get_tile_at_screen_pos_def screen_pos_to_tile_coords_def
      get_tile_at_def py_int_def Tile_init_def Entity_get_screen_pos_def Building_init_record
      Let_def)

end
